theory Spec2Isabelle
  imports Complex_Main "HOL-Library.Sublist"
begin

text \<open>
  The derivation logic of the PathPilot lab dashboard, as pure functions on JavaScript
  values: the risk calculator (\<open>RiskScoreCalculator\<close>: patient risk, organ systems,
  MELD, deterioration), the lab processor (\<open>LabProcessor\<close>: trends) and
  the status classifier of the FHIR client (\<open>transformObservation\<close>). The functions
  follow the TypeScript sources statement by statement; a variable that the source
  assigns twice is bound twice.
\<close>

section \<open>JavaScript values\<close>

subsection \<open>Numbers\<close>

text \<open>
  A JavaScript number is modelled as a real number or one of the three special values
  of IEEE arithmetic. Finite arithmetic is exact (no rounding to 53 bits, no overflow)
  and there is a single zero, which counts as \<open>+0\<close>. Division by zero and the
  propagation of \<open>NaN\<close> and of the infinities follow the language.
\<close>

datatype jsnum = NaN | PInf | NInf | Fin real

fun isNaN :: "jsnum \<Rightarrow> bool" where
  "isNaN NaN = True"
| "isNaN _ = False"

fun js_neg :: "jsnum \<Rightarrow> jsnum" where
  "js_neg NaN = NaN"
| "js_neg PInf = NInf"
| "js_neg NInf = PInf"
| "js_neg (Fin a) = Fin (- a)"

fun js_add :: "jsnum \<Rightarrow> jsnum \<Rightarrow> jsnum" where
  "js_add NaN _ = NaN"
| "js_add _ NaN = NaN"
| "js_add PInf NInf = NaN"
| "js_add NInf PInf = NaN"
| "js_add PInf _ = PInf"
| "js_add _ PInf = PInf"
| "js_add NInf _ = NInf"
| "js_add _ NInf = NInf"
| "js_add (Fin a) (Fin b) = Fin (a + b)"

definition js_sub :: "jsnum \<Rightarrow> jsnum \<Rightarrow> jsnum" where
  "js_sub x y = js_add x (js_neg y)"

text \<open>The sign of a number that is not \<open>NaN\<close>: \<open>1\<close>, \<open>0\<close> or \<open>-1\<close>.\<close>

fun js_sgn :: "jsnum \<Rightarrow> int" where
  "js_sgn NaN = 0"
| "js_sgn PInf = 1"
| "js_sgn NInf = - 1"
| "js_sgn (Fin a) = (if a > 0 then 1 else if a < 0 then - 1 else 0)"

definition signed_inf :: "int \<Rightarrow> jsnum" where
  "signed_inf s = (if s > 0 then PInf else if s < 0 then NInf else NaN)"

fun js_mul :: "jsnum \<Rightarrow> jsnum \<Rightarrow> jsnum" where
  "js_mul NaN _ = NaN"
| "js_mul _ NaN = NaN"
| "js_mul (Fin a) (Fin b) = Fin (a * b)"
| "js_mul x y = signed_inf (js_sgn x * js_sgn y)"

fun js_div :: "jsnum \<Rightarrow> jsnum \<Rightarrow> jsnum" where
  "js_div NaN _ = NaN"
| "js_div _ NaN = NaN"
| "js_div (Fin a) (Fin b) = (if b = 0 then signed_inf (js_sgn (Fin a)) else Fin (a / b))"
| "js_div (Fin a) _ = Fin 0"
| "js_div x (Fin b) = signed_inf (js_sgn x * (if b < 0 then - 1 else 1))"
| "js_div _ _ = NaN"

fun js_lt :: "jsnum \<Rightarrow> jsnum \<Rightarrow> bool" where
  "js_lt NaN _ = False"
| "js_lt _ NaN = False"
| "js_lt (Fin a) (Fin b) = (a < b)"
| "js_lt NInf NInf = False"
| "js_lt NInf _ = True"
| "js_lt _ NInf = False"
| "js_lt PInf _ = False"
| "js_lt _ PInf = True"

definition js_gt :: "jsnum \<Rightarrow> jsnum \<Rightarrow> bool" where
  "js_gt x y = js_lt y x"

definition js_le :: "jsnum \<Rightarrow> jsnum \<Rightarrow> bool" where
  "js_le x y = (\<not> isNaN x \<and> \<not> isNaN y \<and> \<not> js_lt y x)"

definition js_ge :: "jsnum \<Rightarrow> jsnum \<Rightarrow> bool" where
  "js_ge x y = js_le y x"

text \<open>\<open>Math.abs\<close>, \<open>Math.max\<close>, \<open>Math.min\<close>, \<open>Math.log\<close> and \<open>Math.round\<close>.\<close>

fun Math_abs :: "jsnum \<Rightarrow> jsnum" where
  "Math_abs NaN = NaN"
| "Math_abs PInf = PInf"
| "Math_abs NInf = PInf"
| "Math_abs (Fin a) = Fin \<bar>a\<bar>"

definition Math_max :: "jsnum \<Rightarrow> jsnum \<Rightarrow> jsnum" where
  "Math_max x y = (if isNaN x \<or> isNaN y then NaN else if js_lt x y then y else x)"

definition Math_min :: "jsnum \<Rightarrow> jsnum \<Rightarrow> jsnum" where
  "Math_min x y = (if isNaN x \<or> isNaN y then NaN else if js_lt y x then y else x)"

fun Math_log :: "jsnum \<Rightarrow> jsnum" where
  "Math_log NaN = NaN"
| "Math_log PInf = PInf"
| "Math_log NInf = NaN"
| "Math_log (Fin a) = (if a < 0 then NaN else if a = 0 then NInf else Fin (ln a))"

fun Math_round :: "jsnum \<Rightarrow> jsnum" where
  "Math_round (Fin a) = Fin (of_int \<lfloor>a + 1 / 2\<rfloor>)"
| "Math_round x = x"

text \<open>Truthiness of a number: every number but zero and \<open>NaN\<close>.\<close>

fun truthy :: "jsnum \<Rightarrow> bool" where
  "truthy NaN = False"
| "truthy (Fin a) = (a \<noteq> 0)"
| "truthy _ = True"

subsection \<open>Strings\<close>

text \<open>
  A string is a list of characters. \<open>toLowerCase\<close> maps the letters \<open>A\<close> to \<open>Z\<close>;
  the analyte keys of the program are ASCII, so only ASCII case matters for them.
  \<open>str_includes s k\<close> models \<open>s.includes(k)\<close>, the test for a contiguous substring.
\<close>

definition toLowerChar :: "char \<Rightarrow> char" where
  "toLowerChar c =
     (case map_of (zip ''ABCDEFGHIJKLMNOPQRSTUVWXYZ'' ''abcdefghijklmnopqrstuvwxyz'') c of
        Some d \<Rightarrow> d
      | None \<Rightarrow> c)"

definition toLowerCase :: "string \<Rightarrow> string" where
  "toLowerCase s = map toLowerChar s"

fun str_includes :: "string \<Rightarrow> string \<Rightarrow> bool" where
  "str_includes [] sub = (sub = [])"
| "str_includes (c # cs) sub = (prefix sub (c # cs) \<or> str_includes cs sub)"

text \<open>\<open>xs.join(sep)\<close> on a list of strings.\<close>

fun join :: "string \<Rightarrow> string list \<Rightarrow> string" where
  "join sep [] = []"
| "join sep [x] = x"
| "join sep (x # y # ys) = x @ sep @ join sep (y # ys)"

text \<open>The decimal digits of a natural number, as a counter is printed in a template.\<close>

fun string_of_nat :: "nat \<Rightarrow> string" where
  "string_of_nat n =
     (if n < 10 then [char_of (48 + n)]
      else string_of_nat (n div 10) @ [char_of (48 + n mod 10)])"

text \<open>\<open>xs.find(p)\<close>: the first element that satisfies \<open>p\<close>, if any.\<close>

abbreviation js_find :: "('a \<Rightarrow> bool) \<Rightarrow> 'a list \<Rightarrow> 'a option" where
  "js_find p xs \<equiv> List.find p xs"

subsection \<open>\<open>parseFloat\<close>\<close>

text \<open>
  \<open>parseFloat\<close> skips leading white space (here the ASCII white space) and reads the longest prefix that is a
  decimal literal: an optional sign, then \<open>Infinity\<close> or digits with an optional
  fraction and an optional exponent. What follows the literal is ignored; with no
  literal the result is \<open>NaN\<close>.
\<close>

definition isWhiteSpace :: "char \<Rightarrow> bool" where
  "isWhiteSpace c = (of_char c \<in> {9, 10, 11, 12, 13, 32 :: nat})"

definition isDigit :: "char \<Rightarrow> bool" where
  "isDigit c = (c \<in> set ''0123456789'')"

definition digitsValue :: "string \<Rightarrow> int" where
  "digitsValue ds = foldl (\<lambda>acc c. 10 * acc + (of_char c - 48)) 0 ds"

definition scale10 :: "real \<Rightarrow> int \<Rightarrow> real" where
  "scale10 m e = (if e \<ge> 0 then m * 10 ^ nat e else m / 10 ^ nat (- e))"

text \<open>The exponent part \<open>e[+-]ddd\<close> at the head of a string; \<open>0\<close> when there is none.\<close>

definition exponentPart :: "string \<Rightarrow> int" where
  "exponentPart s =
     (case s of
        [] \<Rightarrow> 0
      | c # r \<Rightarrow>
          if c = CHR ''e'' \<or> c = CHR ''E'' then
            (case r of
               [] \<Rightarrow> 0
             | d # r' \<Rightarrow>
                 if d = CHR ''-'' then
                   (if takeWhile isDigit r' = [] then 0
                    else - digitsValue (takeWhile isDigit r'))
                 else if d = CHR ''+'' then digitsValue (takeWhile isDigit r')
                 else digitsValue (takeWhile isDigit r))
          else 0)"

definition unsignedLiteral :: "string \<Rightarrow> jsnum" where
  "unsignedLiteral s =
     (if prefix ''Infinity'' s then PInf
      else
        let ip = takeWhile isDigit s;
            r1 = dropWhile isDigit s;
            fp = (case r1 of [] \<Rightarrow> [] | c # r \<Rightarrow> if c = CHR ''.'' then takeWhile isDigit r else []);
            r2 = (case r1 of [] \<Rightarrow> [] | c # r \<Rightarrow> if c = CHR ''.'' then dropWhile isDigit r else r1)
        in if ip = [] \<and> fp = [] then NaN
           else Fin (scale10 (of_int (digitsValue ip) + of_int (digitsValue fp) / 10 ^ length fp)
                       (exponentPart r2)))"

definition parseFloatString :: "string \<Rightarrow> jsnum" where
  "parseFloatString s =
     (case dropWhile isWhiteSpace s of
        [] \<Rightarrow> NaN
      | c # r \<Rightarrow>
          if c = CHR ''-'' then js_neg (unsignedLiteral r)
          else if c = CHR ''+'' then unsignedLiteral r
          else unsignedLiteral (c # r))"

section \<open>Data model (\<open>types.ts\<close>)\<close>

datatype Status = Normal | Critical | Abnormal

text \<open>A value of type \<open>number | string\<close>.\<close>

datatype LabValue = Num jsnum | Str string

text \<open>
  \<open>parseFloat(v)\<close> first turns \<open>v\<close> into a string. The string of a number reads back
  as that number, so on numbers \<open>parseFloat\<close> is the identity.
\<close>

fun parseFloat :: "LabValue \<Rightarrow> jsnum" where
  "parseFloat (Num n) = n"
| "parseFloat (Str s) = parseFloatString s"

record ReferenceRange =
  low :: "jsnum option"
  high :: "jsnum option"
  range_text :: "string option"

text \<open>
  The field \<open>effectiveDateTime\<close> holds an ISO-8601 string in the program, which reads
  it only through \<open>new Date(s).getTime()\<close>. The model stores that number: the
  milliseconds since the epoch, \<open>NaN\<close> for a string that is not a date. The fields
  \<open>id\<close>, \<open>value\<close> and \<open>interpretation\<close> are named \<open>ident\<close>, \<open>val\<close> and
  \<open>interpretation_display\<close>.
\<close>

record LabResult =
  ident :: string
  code :: string
  name :: string
  val :: LabValue
  unit :: string
  referenceRange :: "ReferenceRange option"
  status :: Status
  effectiveDateTime :: jsnum
  category :: string
  interpretation_display :: "string option"

section \<open>Risk calculator (\<open>risk-calculator.ts\<close>)\<close>

datatype Level = LCritical | LHigh | LModerate | LLow

record RiskFactor =
  factor_name :: string
  weight :: real
  factor_value :: string
  contribution :: nat

record RiskScore =
  score :: nat
  level :: Level
  factors :: "RiskFactor list"

datatype SystemTrend = Worsening | Stable | Improving

record OrganSystemRisk =
  system :: string
  system_score :: nat
  system_trend :: SystemTrend
  markers :: "string list"

text \<open>\<open>l.code.toLowerCase().includes(k)\<close>\<close>

definition codeHas :: "string \<Rightarrow> LabResult \<Rightarrow> bool" where
  "codeHas k l = str_includes (toLowerCase (code l)) k"

subsection \<open>Organ systems\<close>

definition assessRenalRisk :: "LabResult list \<Rightarrow> OrganSystemRisk" where
  "assessRenalRisk labs =
     (let abnormalCount = length (filter (\<lambda>l. status l \<noteq> Normal) labs);
          criticalCount = length (filter (\<lambda>l. status l = Critical) labs);
          score = min ((abnormalCount * 10) + (criticalCount * 20)) 100
      in \<lparr> system = ''Renal'',
           system_score = score,
           system_trend = (if criticalCount > 0 then Worsening
                           else if abnormalCount > 0 then Stable else Improving),
           markers = map name labs \<rparr>)"

definition assessCardiacRisk :: "LabResult list \<Rightarrow> OrganSystemRisk" where
  "assessCardiacRisk labs =
     (let abnormalCount = length (filter (\<lambda>l. status l \<noteq> Normal) labs);
          criticalCount = length (filter (\<lambda>l. status l = Critical) labs);
          score = min ((abnormalCount * 15) + (criticalCount * 25)) 100
      in \<lparr> system = ''Cardiac'',
           system_score = score,
           system_trend = (if criticalCount > 0 then Worsening
                           else if abnormalCount > 0 then Stable else Improving),
           markers = map name labs \<rparr>)"

definition assessHepaticRisk :: "LabResult list \<Rightarrow> OrganSystemRisk" where
  "assessHepaticRisk labs =
     (let abnormalCount = length (filter (\<lambda>l. status l \<noteq> Normal) labs);
          criticalCount = length (filter (\<lambda>l. status l = Critical) labs);
          score = min ((abnormalCount * 8) + (criticalCount * 18)) 100
      in \<lparr> system = ''Hepatic'',
           system_score = score,
           system_trend = (if criticalCount > 0 then Worsening
                           else if abnormalCount > 0 then Stable else Improving),
           markers = map name labs \<rparr>)"

definition renalLabs :: "LabResult list \<Rightarrow> LabResult list" where
  "renalLabs labs =
     filter (\<lambda>l. codeHas ''creatinine'' l \<or> codeHas ''bun'' l \<or> codeHas ''egfr'' l) labs"

definition cardiacLabs :: "LabResult list \<Rightarrow> LabResult list" where
  "cardiacLabs labs =
     filter (\<lambda>l. codeHas ''troponin'' l \<or> codeHas ''bnp'' l \<or> codeHas ''ck'' l) labs"

definition hepaticLabs :: "LabResult list \<Rightarrow> LabResult list" where
  "hepaticLabs labs =
     filter (\<lambda>l. codeHas ''alt'' l \<or> codeHas ''ast'' l \<or> codeHas ''bilirubin'' l
                  \<or> codeHas ''albumin'' l) labs"

definition calculateOrganSystemRisks :: "LabResult list \<Rightarrow> OrganSystemRisk list" where
  "calculateOrganSystemRisks labs =
     (let systems = [];
          systems = (if length (renalLabs labs) > 0
                     then systems @ [assessRenalRisk (renalLabs labs)] else systems);
          systems = (if length (cardiacLabs labs) > 0
                     then systems @ [assessCardiacRisk (cardiacLabs labs)] else systems);
          systems = (if length (hepaticLabs labs) > 0
                     then systems @ [assessHepaticRisk (hepaticLabs labs)] else systems)
      in systems)"

subsection \<open>Patient risk\<close>

text \<open>
  \<open>checkHighRiskMarkers\<close> threads the pair of \<open>score\<close> and \<open>markers\<close> through its four
  checks. Each check looks at the first result of the window whose code matches.
\<close>

definition checkHighRiskMarkers :: "LabResult list \<Rightarrow> nat \<times> string list" where
  "checkHighRiskMarkers labs =
     (let markers = [];
          score = 0;
          creatinine = js_find (codeHas ''creatinine'') labs;
          (score, markers) =
            (case creatinine of
               Some c \<Rightarrow>
                 if status c \<noteq> Normal then
                   (let v = parseFloat (val c)
                    in if \<not> isNaN v \<and> js_gt v (Fin 2.0)
                       then (score + 15, markers @ [''AKI Risk''])
                       else (score, markers))
                 else (score, markers)
             | None \<Rightarrow> (score, markers));
          wbc = js_find (\<lambda>l. codeHas ''wbc'' l \<or> codeHas ''white'' l) labs;
          lactate = js_find (codeHas ''lactate'') labs;
          (score, markers) =
            (if (case wbc of Some w \<Rightarrow> status w = Critical | None \<Rightarrow> False)
                \<or> (case lactate of Some l \<Rightarrow> js_gt (parseFloat (val l)) (Fin 2) | None \<Rightarrow> False)
             then (score + 20, markers @ [''Sepsis Risk''])
             else (score, markers));
          bilirubin = js_find (codeHas ''bilirubin'') labs;
          alt = js_find (\<lambda>l. codeHas ''alt'' l \<or> codeHas ''alanine'' l) labs;
          (score, markers) =
            (if (case bilirubin of Some b \<Rightarrow> status b \<noteq> Normal | None \<Rightarrow> False)
                \<or> (case alt of Some a \<Rightarrow> status a \<noteq> Normal | None \<Rightarrow> False)
             then (score + 10, markers @ [''Hepatic Dysfunction''])
             else (score, markers));
          inr = js_find (codeHas ''inr'') labs;
          plt = js_find (\<lambda>l. codeHas ''platelet'' l \<or> codeHas ''plt'' l) labs;
          (score, markers) =
            (if (case inr of Some i \<Rightarrow> js_gt (parseFloat (val i)) (Fin 2) | None \<Rightarrow> False)
                \<or> (case plt of Some p \<Rightarrow> js_lt (parseFloat (val p)) (Fin 50) | None \<Rightarrow> False)
             then (score + 15, markers @ [''Coagulopathy''])
             else (score, markers))
      in (score, markers))"

text \<open>
  The results of the last two days. \<open>Date.now()\<close> is the parameter \<open>now\<close>, in
  milliseconds since the epoch.
\<close>

definition recentLabs :: "int \<Rightarrow> LabResult list \<Rightarrow> LabResult list" where
  "recentLabs now labs =
     filter (\<lambda>lab.
        let daysSince = js_div (js_sub (Fin (of_int now)) (effectiveDateTime lab))
                               (Fin (1000 * 60 * 60 * 24))
        in js_le daysSince (Fin 2)) labs"

definition levelOf :: "nat \<Rightarrow> Level" where
  "levelOf totalScore =
     (if totalScore \<ge> 80 then LCritical
      else if totalScore \<ge> 60 then LHigh
      else if totalScore \<ge> 40 then LModerate
      else LLow)"

definition calculatePatientRisk :: "int \<Rightarrow> LabResult list \<Rightarrow> RiskScore" where
  "calculatePatientRisk now labs =
     (let factors = [];
          totalScore = 0;
          recent = recentLabs now labs;
          criticalCount = length (filter (\<lambda>l. status l = Critical) recent);
          (factors, totalScore) =
            (if criticalCount > 0 then
               (let criticalScore = min (criticalCount * 15) 45
                in (factors @ [\<lparr> factor_name = ''Critical Values'', weight = 0.35,
                                  factor_value = string_of_nat criticalCount @ '' critical'',
                                  contribution = criticalScore \<rparr>],
                    totalScore + criticalScore))
             else (factors, totalScore));
          abnormalCount = length (filter (\<lambda>l. status l = Abnormal) recent);
          (factors, totalScore) =
            (if abnormalCount > 0 then
               (let abnormalScore = min (abnormalCount * 3) 30
                in (factors @ [\<lparr> factor_name = ''Abnormal Values'', weight = 0.25,
                                  factor_value = string_of_nat abnormalCount @ '' abnormal'',
                                  contribution = abnormalScore \<rparr>],
                    totalScore + abnormalScore))
             else (factors, totalScore));
          highRiskMarkers = checkHighRiskMarkers recent;
          (factors, totalScore) =
            (if fst highRiskMarkers > 0 then
               (factors @ [\<lparr> factor_name = ''High-Risk Markers'', weight = 0.40,
                                factor_value = join '', '' (snd highRiskMarkers),
                                contribution = fst highRiskMarkers \<rparr>],
                totalScore + fst highRiskMarkers)
             else (factors, totalScore))
      in \<lparr> score = min totalScore 100, level = levelOf totalScore, factors = factors \<rparr>)"

subsection \<open>MELD\<close>

definition calculateMELD :: "LabResult list \<Rightarrow> jsnum option" where
  "calculateMELD labs =
     (case (js_find (codeHas ''bilirubin'') labs,
            js_find (codeHas ''inr'') labs,
            js_find (codeHas ''creatinine'') labs) of
        (Some bilirubin, Some inr, Some creatinine) \<Rightarrow>
          (let bilirubinValue = parseFloat (val bilirubin);
               inrValue = parseFloat (val inr);
               creatinineValue = parseFloat (val creatinine)
           in if isNaN bilirubinValue \<or> isNaN inrValue \<or> isNaN creatinineValue then None
              else
                (let meld =
                       js_add
                         (js_add
                            (js_add (js_mul (Fin 3.78) (Math_log (Math_max bilirubinValue (Fin 1))))
                                    (js_mul (Fin 11.2) (Math_log (Math_max inrValue (Fin 1)))))
                            (js_mul (Fin 9.57) (Math_log (Math_max creatinineValue (Fin 1)))))
                         (Fin 6.43)
                 in Some (Math_round (Math_min (Math_max meld (Fin 6)) (Fin 40)))))
      | _ \<Rightarrow> None)"

subsection \<open>Deterioration\<close>

text \<open>
  The body of the \<open>forEach\<close> callback, as a function from the counter before the
  current result to the counter after it.
\<close>

definition worseningStep :: "LabResult list \<Rightarrow> nat \<Rightarrow> LabResult \<Rightarrow> nat" where
  "worseningStep previousLabs worseningCount currentLab =
     (case js_find (\<lambda>p. code p = code currentLab) previousLabs of
        None \<Rightarrow> worseningCount
      | Some previousLab \<Rightarrow>
          (let worseningCount =
                 (if status currentLab = Critical \<and> status previousLab \<noteq> Critical
                  then worseningCount + 1
                  else if status currentLab = Abnormal \<and> status previousLab = Normal
                  then worseningCount + 1
                  else worseningCount);
               currentValue = parseFloat (val currentLab);
               previousValue = parseFloat (val previousLab)
           in if \<not> isNaN currentValue \<and> \<not> isNaN previousValue then
                (let percentChange =
                       js_mul (js_div (js_sub currentValue previousValue) previousValue) (Fin 100);
                     worseningCount =
                       (if codeHas ''creatinine'' currentLab \<and> js_gt percentChange (Fin 25)
                        then worseningCount + 1 else worseningCount);
                     worseningCount =
                       (if codeHas ''lactate'' currentLab \<and> js_gt percentChange (Fin 20)
                        then worseningCount + 1 else worseningCount)
                 in worseningCount)
              else worseningCount))"

definition detectDeterioration :: "LabResult list \<Rightarrow> LabResult list \<Rightarrow> bool" where
  "detectDeterioration currentLabs previousLabs =
     (if length previousLabs = 0 then False
      else foldl (worseningStep previousLabs) 0 currentLabs \<ge> 3)"

section \<open>Lab processor (\<open>LabProcessor\<close>)\<close>

datatype Trend = Rising | Falling | TStable

record DataPoint =
  date :: jsnum
  point_value :: jsnum
  point_status :: Status

record LabTrend =
  labName :: string
  trend_code :: string
  trend_unit :: string
  data :: "DataPoint list"
  currentValue :: jsnum
  previousValue :: "jsnum option"
  delta :: "jsnum option"
  deltaPercent :: "jsnum option"
  trend :: Trend

datatype js_error = TypeError

text \<open>
  \<open>groupLabsByType\<close> fills an object literal, held here as an association list in the
  order in which the keys were first stored. A name that is a property of
  \<open>Object.prototype\<close> is found on the empty object although it was never stored:
  the value is a function (an object for \<open>__proto__\<close>), which is truthy and has no
  \<open>push\<close>, so the call of \<open>push\<close> throws a \<open>TypeError\<close>.
\<close>

definition objectPrototypeKeys :: "string list" where
  "objectPrototypeKeys =
     [''constructor'', ''__defineGetter__'', ''__defineSetter__'', ''hasOwnProperty'',
      ''__lookupGetter__'', ''__lookupSetter__'', ''isPrototypeOf'', ''propertyIsEnumerable'',
      ''toString'', ''valueOf'', ''__proto__'', ''toLocaleString'']"

fun groupLoop ::
  "(string \<times> LabResult list) list \<Rightarrow> LabResult list
     \<Rightarrow> js_error + (string \<times> LabResult list) list" where
  "groupLoop grouped [] = Inr grouped"
| "groupLoop grouped (result # rest) =
     (let key = name result
      in case map_of grouped key of
           Some rs \<Rightarrow>
             groupLoop (map (\<lambda>(k, v). if k = key then (k, v @ [result]) else (k, v)) grouped) rest
         | None \<Rightarrow>
             if key \<in> set objectPrototypeKeys then Inl TypeError
             else groupLoop (grouped @ [(key, [result])]) rest)"

definition groupLabsByType ::
  "LabResult list \<Rightarrow> js_error + (string \<times> LabResult list) list" where
  "groupLabsByType labResults = groupLoop [] labResults"

text \<open>
  \<open>Object.entries\<close> lists the keys that are array indices first, in ascending numeric
  order, and the other keys after them in the order in which they were stored. An array
  index is the decimal form of a natural number below \<open>2\<^sup>3\<^sup>2 - 1\<close>.
\<close>

definition isArrayIndex :: "string \<Rightarrow> bool" where
  "isArrayIndex k =
     (k \<noteq> [] \<and> list_all isDigit k \<and> (k = ''0'' \<or> take 1 k \<noteq> ''0'')
      \<and> digitsValue k < 4294967295)"

definition objectEntries :: "(string \<times> 'a) list \<Rightarrow> (string \<times> 'a) list" where
  "objectEntries props =
     sort_key (\<lambda>(k, _). digitsValue k) (filter (\<lambda>(k, _). isArrayIndex k) props)
     @ filter (\<lambda>(k, _). \<not> isArrayIndex k) props"

text \<open>
  \<open>xs.sort(cmp)\<close> as a stable insertion sort: an element moves behind those it compares
  greater than, and a comparison that yields \<open>NaN\<close> counts as equal. Every conforming
  engine returns this list when \<open>cmp\<close> is a consistent order, as it is on results whose
  dates all parse. When a date does not parse the comparator is not consistent and the
  order is left to the engine; this list is then one possible order, not the order of
  every engine.
\<close>

fun insertSorted :: "('a \<Rightarrow> 'a \<Rightarrow> jsnum) \<Rightarrow> 'a \<Rightarrow> 'a list \<Rightarrow> 'a list" where
  "insertSorted cmp x [] = [x]"
| "insertSorted cmp x (y # ys) =
     (if js_gt (cmp x y) (Fin 0) then y # insertSorted cmp x ys else x # y # ys)"

definition js_sort :: "('a \<Rightarrow> 'a \<Rightarrow> jsnum) \<Rightarrow> 'a list \<Rightarrow> 'a list" where
  "js_sort cmp xs = foldr (insertSorted cmp) xs []"

definition byDateDescending :: "LabResult \<Rightarrow> LabResult \<Rightarrow> jsnum" where
  "byDateDescending a b = js_sub (effectiveDateTime b) (effectiveDateTime a)"

text \<open>
  The results whose value has type \<open>number\<close>. The program casts the value of a filtered
  result to \<open>number\<close>; the model keeps the number beside the result.
\<close>

definition numericOnly :: "LabResult list \<Rightarrow> (LabResult \<times> jsnum) list" where
  "numericOnly rs = List.map_filter (\<lambda>r. case val r of Num n \<Rightarrow> Some (r, n) | Str _ \<Rightarrow> None) rs"

text \<open>The direction of a change \<open>d\<close> with the percent change \<open>dp\<close>.\<close>

definition classifyTrend :: "jsnum \<Rightarrow> jsnum \<Rightarrow> Trend" where
  "classifyTrend d dp =
     (if js_lt (Math_abs dp) (Fin 5) then TStable
      else if js_gt d (Fin 0) then Rising
      else Falling)"

text \<open>
  The body of the loop over the groups after the sort, for one group and the sorted list
  of its results: \<open>None\<close> is \<open>continue\<close>, \<open>Some t\<close> is the trend pushed.
\<close>

definition trendOfSorted :: "string \<Rightarrow> LabResult list \<Rightarrow> LabTrend option" where
  "trendOfSorted lab_name sortedResults =
     (let numericResults = numericOnly sortedResults
      in case (sortedResults, numericResults) of
           (first # _, (_, current) # others) \<Rightarrow>
             (let previous = (case others of [] \<Rightarrow> None | (_, p) # _ \<Rightarrow> Some p);
                  (d, dp, tr) =
                    (case previous of
                       None \<Rightarrow> (None, None, TStable)
                     | Some p \<Rightarrow>
                         (let d = js_sub current p;
                              dp = js_mul (js_div d p) (Fin 100)
                          in (Some d, Some dp, classifyTrend d dp)))
              in Some \<lparr> labName = lab_name,
                        trend_code = code first,
                        trend_unit = unit first,
                        data = rev (map (\<lambda>(r, n). \<lparr> date = effectiveDateTime r,
                                                    point_value = n,
                                                    point_status = status r \<rparr>)
                                        (take 10 numericResults)),
                        currentValue = current,
                        previousValue = previous,
                        delta = d,
                        deltaPercent = dp,
                        trend = tr \<rparr>)
         | _ \<Rightarrow> None)"

text \<open>The body of the loop for one group: the sort, then the rest.\<close>

definition groupTrend :: "string \<Rightarrow> LabResult list \<Rightarrow> LabTrend option" where
  "groupTrend lab_name results = trendOfSorted lab_name (js_sort byDateDescending results)"

definition processLabTrends :: "LabResult list \<Rightarrow> js_error + LabTrend list" where
  "processLabTrends labResults =
     (case groupLabsByType labResults of
        Inl e \<Rightarrow> Inl e
      | Inr groupedLabs \<Rightarrow>
          Inr (List.map_filter (\<lambda>(lab_name, results). groupTrend lab_name results)
                 (objectEntries groupedLabs)))"

section \<open>FHIR client (\<open>fhir-client.ts\<close>)\<close>

record Coding =
  coding_system :: string
  coding_code :: string
  display :: string

record CodeableConcept =
  coding :: "Coding list option"
  code_text :: "string option"

record Quantity =
  q_value :: jsnum
  q_unit :: string

record FHIRRange =
  range_low :: "Quantity option"
  range_high :: "Quantity option"
  fhir_range_text :: "string option"

record FHIRObservation =
  obs_id :: string
  obs_status :: string
  obs_code :: CodeableConcept
  obs_effectiveDateTime :: jsnum
  valueQuantity :: "Quantity option"
  obs_referenceRange :: "FHIRRange list option"
  obs_interpretation :: "CodeableConcept list option"

text \<open>\<open>xs?.[0]\<close>: the first element of an optional list.\<close>

definition first_of :: "'a list option \<Rightarrow> 'a option" where
  "first_of xs = (case xs of Some (x # _) \<Rightarrow> Some x | _ \<Rightarrow> None)"

text \<open>\<open>a || b\<close> on optional strings: \<open>a\<close> unless it is undefined or empty.\<close>

definition or_else :: "string option \<Rightarrow> string \<Rightarrow> string" where
  "or_else a b = (case a of Some s \<Rightarrow> if s = [] then b else s | None \<Rightarrow> b)"

text \<open>
  The first step of \<open>transformObservation\<close> (the status from the reference range) and
  the second step (the table of critical thresholds), each as a function of its own.
\<close>

definition rangeRule :: "jsnum option \<Rightarrow> FHIRRange option \<Rightarrow> Status" where
  "rangeRule v refRange =
     (case (v, refRange) of
        (Some x, Some r) \<Rightarrow>
          if (case range_high r of Some h \<Rightarrow> js_gt x (q_value h) | None \<Rightarrow> False) then
            (case range_high r of
               Some h \<Rightarrow> if js_gt x (js_mul (q_value h) (Fin 1.5)) then Critical else Abnormal
             | None \<Rightarrow> Normal)
          else if (case range_low r of Some l \<Rightarrow> js_lt x (q_value l) | None \<Rightarrow> False) then
            (case range_low r of
               Some l \<Rightarrow> if js_lt x (js_mul (q_value l) (Fin 0.5)) then Critical else Abnormal
             | None \<Rightarrow> Normal)
          else Normal
      | _ \<Rightarrow> Normal)"

text \<open>
  The table of critical thresholds, in the order in which \<open>Object.entries\<close> lists its
  keys: none of them is an array index, so this is the order of the source.
\<close>

record CriticalRange =
  crit_low :: "jsnum option"
  crit_high :: "jsnum option"

definition criticalRanges :: "(string \<times> CriticalRange) list" where
  "criticalRanges =
     [(''Potassium'', \<lparr> crit_low = Some (Fin 2.5), crit_high = Some (Fin 6.5) \<rparr>),
      (''Sodium'', \<lparr> crit_low = Some (Fin 120), crit_high = Some (Fin 160) \<rparr>),
      (''Glucose'', \<lparr> crit_low = Some (Fin 40), crit_high = Some (Fin 500) \<rparr>),
      (''Hemoglobin'', \<lparr> crit_low = Some (Fin 5), crit_high = Some (Fin 20) \<rparr>),
      (''Platelet'', \<lparr> crit_low = Some (Fin 20), crit_high = Some (Fin 1000) \<rparr>),
      (''Creatinine'', \<lparr> crit_low = None, crit_high = Some (Fin 10) \<rparr>)]"

definition tableRule :: "string \<Rightarrow> jsnum option \<Rightarrow> Status \<Rightarrow> Status" where
  "tableRule lab_name v status0 =
     (let critical =
            js_find (\<lambda>(key, _). str_includes (toLowerCase lab_name) (toLowerCase key)) criticalRanges
      in case (critical, v) of
           (Some (_, rng), Some x) \<Rightarrow>
             if (case crit_high rng of Some h \<Rightarrow> truthy h \<and> js_gt x h | None \<Rightarrow> False)
                \<or> (case crit_low rng of Some l \<Rightarrow> truthy l \<and> js_lt x l | None \<Rightarrow> False)
             then Critical
             else status0
         | _ \<Rightarrow> status0)"

definition labNameOf :: "FHIRObservation \<Rightarrow> string" where
  "labNameOf obs =
     or_else (code_text (obs_code obs))
       (or_else (map_option display (first_of (coding (obs_code obs)))) ''Unknown'')"

definition transformObservation :: "FHIRObservation \<Rightarrow> LabResult" where
  "transformObservation obs =
     (let v = map_option q_value (valueQuantity obs);
          u = or_else (map_option q_unit (valueQuantity obs)) [];
          refRange = first_of (obs_referenceRange obs);
          st = rangeRule v refRange;
          lab_name = labNameOf obs;
          st = tableRule lab_name v st
      in \<lparr> ident = obs_id obs,
           code = or_else (map_option coding_code (first_of (coding (obs_code obs)))) [],
           name = lab_name,
           val = (case v of Some x \<Rightarrow> Num x | None \<Rightarrow> Str ''N/A''),
           unit = u,
           referenceRange =
             map_option (\<lambda>r. \<lparr> low = map_option q_value (range_low r),
                               high = map_option q_value (range_high r),
                               range_text = fhir_range_text r \<rparr>) refRange,
           status = st,
           effectiveDateTime = obs_effectiveDateTime obs,
           category = ''laboratory'',
           interpretation_display =
             map_option display
               (first_of (case first_of (obs_interpretation obs) of
                            Some c \<Rightarrow> coding c | None \<Rightarrow> None)) \<rparr>)"

section \<open>Vocabulary of the specification\<close>

subsection \<open>Organ systems\<close>

text \<open>
  The three systems with the name each is emitted under, the keys its results are
  recognised by, and its two weights.
\<close>

datatype OrganSystem = Renal | Cardiac | Hepatic

fun systemName :: "OrganSystem \<Rightarrow> string" where
  "systemName Renal = ''Renal''"
| "systemName Cardiac = ''Cardiac''"
| "systemName Hepatic = ''Hepatic''"

fun systemKeys :: "OrganSystem \<Rightarrow> string list" where
  "systemKeys Renal = [''creatinine'', ''bun'', ''egfr'']"
| "systemKeys Cardiac = [''troponin'', ''bnp'', ''ck'']"
| "systemKeys Hepatic = [''alt'', ''ast'', ''bilirubin'', ''albumin'']"

fun weightAbnormal :: "OrganSystem \<Rightarrow> nat" where
  "weightAbnormal Renal = 10"
| "weightAbnormal Cardiac = 15"
| "weightAbnormal Hepatic = 8"

fun weightCritical :: "OrganSystem \<Rightarrow> nat" where
  "weightCritical Renal = 20"
| "weightCritical Cardiac = 25"
| "weightCritical Hepatic = 18"

text \<open>The results whose code contains, in lower case, one of the keys of the system.\<close>

definition matchingLabs :: "OrganSystem \<Rightarrow> LabResult list \<Rightarrow> LabResult list" where
  "matchingLabs sys labs = filter (\<lambda>l. list_ex (\<lambda>k. codeHas k l) (systemKeys sys)) labs"

definition countStatus :: "Status \<Rightarrow> LabResult list \<Rightarrow> nat" where
  "countStatus s ls = length (filter (\<lambda>l. status l = s) ls)"

definition countNonNormal :: "LabResult list \<Rightarrow> nat" where
  "countNonNormal ls = length (filter (\<lambda>l. status l \<noteq> Normal) ls)"

text \<open>The assessment function the program calls for each system.\<close>

fun assess :: "OrganSystem \<Rightarrow> LabResult list \<Rightarrow> OrganSystemRisk" where
  "assess Renal = assessRenalRisk"
| "assess Cardiac = assessCardiacRisk"
| "assess Hepatic = assessHepaticRisk"

subsection \<open>Example inputs\<close>

text \<open>A result with the given code, name, value, status and time; the other fields fixed.\<close>

definition lab :: "string \<Rightarrow> string \<Rightarrow> LabValue \<Rightarrow> Status \<Rightarrow> jsnum \<Rightarrow> LabResult" where
  "lab c n v s t =
     \<lparr> ident = ''obs-1'', code = c, name = n, val = v, unit = ''mg/dL'', referenceRange = None,
       status = s, effectiveDateTime = t, category = ''laboratory'',
       interpretation_display = None \<rparr>"

definition organLabs :: "LabResult list" where
  "organLabs =
     [lab ''Creatinine'' ''Creatinine'' (Num (Fin 3)) Critical (Fin 0),
      lab ''K'' ''Potassium'' (Num (Fin 4)) Normal (Fin 0),
      lab ''ALT'' ''Alanine Aminotransferase'' (Num (Fin 80)) Abnormal (Fin 0)]"

text \<open>
  A window for the risk score, at the time 1700000000000: two critical results and an
  abnormal one a few hours old, a normal one, and a critical result of three years before.
\<close>

definition riskLabs :: "LabResult list" where
  "riskLabs =
     [lab ''sodium'' ''Sodium'' (Num (Fin 118)) Critical (Fin 1699990000000),
      lab ''potassium'' ''Potassium'' (Num (Fin 7)) Critical (Fin 1699990000000),
      lab ''glucose'' ''Glucose'' (Num (Fin 180)) Abnormal (Fin 1699950000000),
      lab ''chloride'' ''Chloride'' (Num (Fin 100)) Normal (Fin 1699950000000),
      lab ''sodium'' ''Sodium'' (Num (Fin 110)) Critical (Fin 1600000000000)]"

subsection \<open>Marker patterns\<close>

text \<open>
  The four marker patterns. Each looks at the first result of the window whose code
  contains its key.
\<close>

definition akiPattern :: "LabResult list \<Rightarrow> bool" where
  "akiPattern w =
     (case js_find (codeHas ''creatinine'') w of
        Some c \<Rightarrow> status c \<noteq> Normal \<and> js_gt (parseFloat (val c)) (Fin 2)
      | None \<Rightarrow> False)"

definition sepsisPattern :: "LabResult list \<Rightarrow> bool" where
  "sepsisPattern w =
     ((case js_find (\<lambda>l. codeHas ''wbc'' l \<or> codeHas ''white'' l) w of
         Some x \<Rightarrow> status x = Critical | None \<Rightarrow> False)
      \<or> (case js_find (codeHas ''lactate'') w of
            Some x \<Rightarrow> js_gt (parseFloat (val x)) (Fin 2) | None \<Rightarrow> False))"

definition hepaticPattern :: "LabResult list \<Rightarrow> bool" where
  "hepaticPattern w =
     ((case js_find (codeHas ''bilirubin'') w of
         Some x \<Rightarrow> status x \<noteq> Normal | None \<Rightarrow> False)
      \<or> (case js_find (\<lambda>l. codeHas ''alt'' l \<or> codeHas ''alanine'' l) w of
            Some x \<Rightarrow> status x \<noteq> Normal | None \<Rightarrow> False))"

definition coagulopathyPattern :: "LabResult list \<Rightarrow> bool" where
  "coagulopathyPattern w =
     ((case js_find (codeHas ''inr'') w of
         Some x \<Rightarrow> js_gt (parseFloat (val x)) (Fin 2) | None \<Rightarrow> False)
      \<or> (case js_find (\<lambda>l. codeHas ''platelet'' l \<or> codeHas ''plt'' l) w of
            Some x \<Rightarrow> js_lt (parseFloat (val x)) (Fin 50) | None \<Rightarrow> False))"

definition otherMarkerPoints :: "LabResult list \<Rightarrow> nat" where
  "otherMarkerPoints w =
     (if sepsisPattern w then 20 else 0) + (if hepaticPattern w then 10 else 0)
     + (if coagulopathyPattern w then 15 else 0)"

definition otherMarkerNames :: "LabResult list \<Rightarrow> string list" where
  "otherMarkerNames w =
     (if sepsisPattern w then [''Sepsis Risk''] else [])
     @ (if hepaticPattern w then [''Hepatic Dysfunction''] else [])
     @ (if coagulopathyPattern w then [''Coagulopathy''] else [])"

text \<open>
  Two creatinine results of the same day: a normal one, and a critical one of 3.0 that
  comes second in the list.
\<close>

definition creatinineNormal :: LabResult where
  "creatinineNormal = lab ''creatinine'' ''Creatinine'' (Num (Fin 1)) Normal (Fin 1699990000000)"

definition creatinineHigh :: LabResult where
  "creatinineHigh = lab ''creatinine'' ''Creatinine'' (Num (Fin 3)) Critical (Fin 1699950000000)"

definition akiLabs :: "LabResult list" where
  "akiLabs = [creatinineNormal, creatinineHigh]"

subsection \<open>MELD\<close>

text \<open>
  The result the MELD score reads for a key: the first result whose code contains it.
  Its value is numeric when \<open>parseFloat\<close> does not yield \<open>NaN\<close>.
\<close>

definition namedResult :: "string \<Rightarrow> LabResult list \<Rightarrow> LabResult option" where
  "namedResult key labs = js_find (codeHas key) labs"

definition nonNumeric :: "LabResult \<Rightarrow> bool" where
  "nonNumeric l = isNaN (parseFloat (val l))"

text \<open>
  The formula of the specification on the numbers of the program: the weighted
  logarithms, rounded to the nearest integer, then clamped to the interval from 6 to 40.
\<close>

definition meldFormula :: "jsnum \<Rightarrow> jsnum \<Rightarrow> jsnum \<Rightarrow> jsnum" where
  "meldFormula b i c =
     Math_max (Fin 6) (Math_min (Fin 40)
       (Math_round
          (js_add
             (js_add
                (js_add (js_mul (Fin 3.78) (Math_log (Math_max b (Fin 1))))
                        (js_mul (Fin 11.2) (Math_log (Math_max i (Fin 1)))))
                (js_mul (Fin 9.57) (Math_log (Math_max c (Fin 1)))))
             (Fin 6.43))))"

text \<open>The same formula on real numbers.\<close>

definition meldReal :: "real \<Rightarrow> real \<Rightarrow> real \<Rightarrow> int" where
  "meldReal b i c =
     max 6 (min 40 (round (3.78 * ln (max b 1) + 11.2 * ln (max i 1) + 9.57 * ln (max c 1) + 6.43)))"

text \<open>Bilirubin, INR and creatinine all at 1.0, the creatinine value given as a string.\<close>

definition bilirubinOne :: LabResult where
  "bilirubinOne = lab ''bilirubin'' ''Bilirubin, Total'' (Num (Fin 1.0)) Normal (Fin 0)"

definition inrOne :: LabResult where
  "inrOne = lab ''INR'' ''INR(PT)'' (Num (Fin 1.0)) Normal (Fin 0)"

definition creatinineOne :: LabResult where
  "creatinineOne = lab ''creatinine'' ''Creatinine'' (Str ''1.0'') Normal (Fin 0)"

definition meldLabs :: "LabResult list" where
  "meldLabs =
     [bilirubinOne, inrOne, lab ''sodium'' ''Sodium'' (Num (Fin 140)) Normal (Fin 0), creatinineOne]"

subsection \<open>Deterioration\<close>

text \<open>
  The worsening count of the specification. A current result is matched with the first
  previous result of the same code. The percent change is that of the parsed values; it
  is \<open>NaN\<close>, and exceeds nothing, when one of them is not numeric.
\<close>

definition matchedPrevious :: "LabResult list \<Rightarrow> LabResult \<Rightarrow> LabResult option" where
  "matchedPrevious previousLabs c = js_find (\<lambda>p. code p = code c) previousLabs"

definition statusEscalated :: "LabResult \<Rightarrow> LabResult \<Rightarrow> bool" where
  "statusEscalated c p =
     ((status c = Critical \<and> status p \<noteq> Critical) \<or> (status c = Abnormal \<and> status p = Normal))"

definition percentIncrease :: "LabResult \<Rightarrow> LabResult \<Rightarrow> jsnum" where
  "percentIncrease c p =
     js_mul (js_div (js_sub (parseFloat (val c)) (parseFloat (val p))) (parseFloat (val p)))
            (Fin 100)"

definition worseningOf :: "LabResult list \<Rightarrow> LabResult \<Rightarrow> nat" where
  "worseningOf previousLabs c =
     (case matchedPrevious previousLabs c of
        None \<Rightarrow> 0
      | Some p \<Rightarrow>
          (if statusEscalated c p then 1 else 0)
          + (if codeHas ''creatinine'' c \<and> js_gt (percentIncrease c p) (Fin 25) then 1 else 0)
          + (if codeHas ''lactate'' c \<and> js_gt (percentIncrease c p) (Fin 20) then 1 else 0))"

definition worseningTotal :: "LabResult list \<Rightarrow> LabResult list \<Rightarrow> nat" where
  "worseningTotal currentLabs previousLabs = sum_list (map (worseningOf previousLabs) currentLabs)"

text \<open>
  Two windows: from the previous to the current one sodium goes from normal to abnormal,
  creatinine rises by 30 percent and lactate by 25 percent; glucose has no previous result.
\<close>

definition glucoseNew :: LabResult where
  "glucoseNew = lab ''glucose'' ''Glucose'' (Num (Fin 600)) Critical (Fin 2000)"

definition previousWindow :: "LabResult list" where
  "previousWindow =
     [lab ''sodium'' ''Sodium'' (Num (Fin 138)) Normal (Fin 1000),
      lab ''creatinine'' ''Creatinine'' (Num (Fin 1.0)) Abnormal (Fin 1000),
      lab ''lactate'' ''Lactate'' (Num (Fin 2.0)) Abnormal (Fin 1000),
      lab ''K'' ''Potassium'' (Num (Fin 7)) Critical (Fin 1000)]"

definition currentWindow :: "LabResult list" where
  "currentWindow =
     [lab ''sodium'' ''Sodium'' (Num (Fin 131)) Abnormal (Fin 2000),
      lab ''creatinine'' ''Creatinine'' (Num (Fin 1.3)) Abnormal (Fin 2000),
      lab ''lactate'' ''Lactate'' (Num (Fin 2.5)) Abnormal (Fin 2000),
      glucoseNew]"

subsection \<open>Trends\<close>

text \<open>
  The condition under which the specification calls a trend stable: there is no
  previous value, or the percent change is below 5 in absolute value.
\<close>

definition stableCondition :: "LabTrend \<Rightarrow> bool" where
  "stableCondition t =
     (previousValue t = None
      \<or> (case deltaPercent t of Some dp \<Rightarrow> js_lt (Math_abs dp) (Fin 5) | None \<Rightarrow> False))"

text \<open>
  The trend analysis of the specification: the results of one name, sorted by timestamp
  with the newest first (results of equal time keep their order), and of these the
  numeric values. The first is the current value, the second the previous one. The
  timestamps are compared as numbers, which presupposes that every date parses.
\<close>

definition datesParse :: "LabResult list \<Rightarrow> bool" where
  "datesParse labs = list_all (\<lambda>l. case effectiveDateTime l of Fin _ \<Rightarrow> True | _ \<Rightarrow> False) labs"

definition timeOf :: "LabResult \<Rightarrow> real" where
  "timeOf l = (case effectiveDateTime l of Fin d \<Rightarrow> d | _ \<Rightarrow> 0)"

definition named :: "string \<Rightarrow> LabResult list \<Rightarrow> LabResult list" where
  "named n labs = filter (\<lambda>l. name l = n) labs"

definition newestFirst :: "LabResult list \<Rightarrow> LabResult list" where
  "newestFirst rs = sort_key (\<lambda>l. - timeOf l) rs"

definition numericValues :: "LabResult list \<Rightarrow> jsnum list" where
  "numericValues rs = List.map_filter (\<lambda>l. case val l of Num n \<Rightarrow> Some n | Str _ \<Rightarrow> None) rs"

definition recentValues :: "string \<Rightarrow> LabResult list \<Rightarrow> jsnum list" where
  "recentValues n labs = numericValues (newestFirst (named n labs))"

text \<open>A series of two results of one analyte, the older at time 1000, the newer at 2000.\<close>

definition series :: "real \<Rightarrow> real \<Rightarrow> LabResult list" where
  "series older newer =
     [lab ''2823-3'' ''Potassium'' (Num (Fin older)) Normal (Fin 1000),
      lab ''2823-3'' ''Potassium'' (Num (Fin newer)) Normal (Fin 2000)]"

definition trendSummary :: "LabTrend \<Rightarrow> jsnum \<times> jsnum option \<times> jsnum option \<times> jsnum option \<times> Trend" where
  "trendSummary t = (currentValue t, previousValue t, delta t, deltaPercent t, trend t)"

text \<open>The trend expected for a series, given its change, percent change and direction.\<close>

definition expectedTrend :: "real \<Rightarrow> real \<Rightarrow> jsnum \<Rightarrow> jsnum \<Rightarrow> Trend \<Rightarrow> LabTrend" where
  "expectedTrend older newer d dp tr =
     \<lparr> labName = ''Potassium'', trend_code = ''2823-3'', trend_unit = ''mg/dL'',
       data = [\<lparr> date = Fin 1000, point_value = Fin older, point_status = Normal \<rparr>,
               \<lparr> date = Fin 2000, point_value = Fin newer, point_status = Normal \<rparr>],
       currentValue = Fin newer, previousValue = Some (Fin older),
       delta = Some d, deltaPercent = Some dp, trend = tr \<rparr>"

subsection \<open>Status classifier\<close>

text \<open>
  The entry of the table that the classifier consults for a name: the first one, in the
  order of the table, whose key the name contains. A value lies outside an entry when
  it is above the upper bound or below the lower bound, where the entry has one.
\<close>

definition nameHasKey :: "string \<Rightarrow> string \<Rightarrow> bool" where
  "nameHasKey n k = str_includes (toLowerCase n) (toLowerCase k)"

definition firstKey :: "string \<Rightarrow> (string \<times> CriticalRange) option" where
  "firstKey n = js_find (\<lambda>(k, _). nameHasKey n k) criticalRanges"

definition outsideBounds :: "jsnum \<Rightarrow> CriticalRange \<Rightarrow> bool" where
  "outsideBounds x rng =
     ((case crit_high rng of Some h \<Rightarrow> js_gt x h | None \<Rightarrow> False)
      \<or> (case crit_low rng of Some l \<Rightarrow> js_lt x l | None \<Rightarrow> False))"

text \<open>
  An observation with a display name, a value and the two bounds of a reference range.
\<close>

definition quantity :: "real \<Rightarrow> Quantity" where
  "quantity x = \<lparr> q_value = Fin x, q_unit = ''mmol/L'' \<rparr>"

definition fhirRange :: "real option \<Rightarrow> real option \<Rightarrow> FHIRRange" where
  "fhirRange lo hi =
     \<lparr> range_low = map_option quantity lo, range_high = map_option quantity hi,
       fhir_range_text = None \<rparr>"

definition observation :: "string \<Rightarrow> real \<Rightarrow> FHIRRange list option \<Rightarrow> FHIRObservation" where
  "observation n x rs =
     \<lparr> obs_id = ''obs-1'', obs_status = ''final'',
       obs_code = \<lparr> coding = Some [\<lparr> coding_system = ''http://loinc.org'',
                                       coding_code = ''0000-0'', display = n \<rparr>],
                    code_text = None \<rparr>,
       obs_effectiveDateTime = Fin 1000,
       valueQuantity = Some (quantity x),
       obs_referenceRange = rs,
       obs_interpretation = None \<rparr>"

text \<open>
  A base excess of -1.5 against the range from -2 to 2, a value of -12 against the upper
  bound -10, and a ratio of 3 under a name that contains two keys of the table.
\<close>

definition baseExcess :: FHIRObservation where
  "baseExcess = observation ''Base Excess'' (- 1.5) (Some [fhirRange (Some (- 2)) (Some 2)])"

definition belowNegativeHigh :: FHIRObservation where
  "belowNegativeHigh = observation ''Delta'' (- 12) (Some [fhirRange None (Some (- 10))])"

definition ratioObservation :: FHIRObservation where
  "ratioObservation = observation ''Sodium/Potassium Ratio'' 3 None"

definition potassiumHigh :: FHIRObservation where
  "potassiumHigh = observation ''Potassium, Whole Blood'' 7 (Some [fhirRange (Some 3.5) (Some 5.0)])"

subsection \<open>The recency window\<close>



section \<open>Properties\<close>

subsection \<open>Organ systems\<close>

lemma matchingLabs_simps:
  "renalLabs labs = matchingLabs Renal labs"
  "cardiacLabs labs = matchingLabs Cardiac labs"
  "hepaticLabs labs = matchingLabs Hepatic labs"
  by (simp_all add: renalLabs_def cardiacLabs_def hepaticLabs_def matchingLabs_def)

lemma calculateOrganSystemRisks_concat:
  "calculateOrganSystemRisks labs =
     concat (map (\<lambda>sys. if matchingLabs sys labs = [] then []
                         else [assess sys (matchingLabs sys labs)])
                 [Renal, Cardiac, Hepatic])"
  by (simp add: calculateOrganSystemRisks_def matchingLabs_simps)

lemma assess_fields:
  "system (assess sys m) = systemName sys"
  "system_score (assess sys m)
     = min (countNonNormal m * weightAbnormal sys + countStatus Critical m * weightCritical sys) 100"
  "system_trend (assess sys m)
     = (if countStatus Critical m > 0 then Worsening
        else if countNonNormal m > 0 then Stable else Improving)"
  "markers (assess sys m) = map name m"
  by (cases sys; simp add: assessRenalRisk_def assessCardiacRisk_def assessHepaticRisk_def
        countNonNormal_def countStatus_def Let_def)+

lemma emitted_iff:
  "r \<in> set (calculateOrganSystemRisks labs) \<longleftrightarrow>
     (\<exists>sys. matchingLabs sys labs \<noteq> [] \<and> r = assess sys (matchingLabs sys labs))"
proof -
  have "(\<exists>sys. P sys) \<longleftrightarrow> P Renal \<or> P Cardiac \<or> P Hepatic" for P
    by (metis OrganSystem.exhaust)
  then show ?thesis
    by (auto simp add: calculateOrganSystemRisks_concat)
qed

lemma countNonNormal_split:
  "countNonNormal m = countStatus Abnormal m + countStatus Critical m"
  unfolding countNonNormal_def countStatus_def
  by (induction m) (auto intro: Status.exhaust)

lemma systemName_inject: "systemName a = systemName b \<longleftrightarrow> a = b"
  by (cases a; cases b; simp)

lemma organLabs_matching:
  "matchingLabs Renal organLabs = [lab ''Creatinine'' ''Creatinine'' (Num (Fin 3)) Critical (Fin 0)]"
  "matchingLabs Cardiac organLabs = []"
  by code_simp+

text \<open>
  C8. A system is emitted exactly when at least one result matches one of its keys, so a
  system without matching results is omitted. The score of an emitted system is
  \<open>min (abnormalCount \<times> wA + criticalCount \<times> wC, 100)\<close> with the weights (10, 20) for
  Renal, (15, 25) for Cardiac and (8, 18) for Hepatic, and its trend is worsening if
  \<open>criticalCount > 0\<close>, else stable if \<open>abnormalCount > 0\<close>, else improving. Here
  \<open>criticalCount\<close> counts the matching results of status critical and \<open>abnormalCount\<close>
  those whose status is not normal.
\<close>

theorem organ_system_risks_emitted:
  "(\<forall>r \<in> set (calculateOrganSystemRisks labs).
      \<exists>sys. system r = systemName sys \<and> matchingLabs sys labs \<noteq> []
        \<and> system_score r
            = min (countNonNormal (matchingLabs sys labs) * weightAbnormal sys
                   + countStatus Critical (matchingLabs sys labs) * weightCritical sys) 100
        \<and> system_trend r
            = (if countStatus Critical (matchingLabs sys labs) > 0 then Worsening
               else if countNonNormal (matchingLabs sys labs) > 0 then Stable
               else Improving))
   \<and> (\<forall>sys. matchingLabs sys labs = [] \<longrightarrow>
         (\<forall>r \<in> set (calculateOrganSystemRisks labs). system r \<noteq> systemName sys))
   \<and> (\<forall>sys. matchingLabs sys labs \<noteq> [] \<longrightarrow>
         (\<exists>r \<in> set (calculateOrganSystemRisks labs). system r = systemName sys))"
proof (intro conjI ballI allI impI)
  fix r assume "r \<in> set (calculateOrganSystemRisks labs)"
  then obtain sys where "matchingLabs sys labs \<noteq> []" "r = assess sys (matchingLabs sys labs)"
    by (auto simp: emitted_iff)
  then show "\<exists>sys. system r = systemName sys \<and> matchingLabs sys labs \<noteq> []
        \<and> system_score r
            = min (countNonNormal (matchingLabs sys labs) * weightAbnormal sys
                   + countStatus Critical (matchingLabs sys labs) * weightCritical sys) 100
        \<and> system_trend r
            = (if countStatus Critical (matchingLabs sys labs) > 0 then Worsening
               else if countNonNormal (matchingLabs sys labs) > 0 then Stable
               else Improving)"
    by (intro exI[of _ sys]) (simp add: assess_fields)
next
  fix sys r
  assume e: "matchingLabs sys labs = []" and r: "r \<in> set (calculateOrganSystemRisks labs)"
  from r obtain s' where s': "matchingLabs s' labs \<noteq> []" "r = assess s' (matchingLabs s' labs)"
    by (auto simp: emitted_iff)
  with e have "s' \<noteq> sys" by auto
  with s' show "system r \<noteq> systemName sys" by (simp add: assess_fields systemName_inject)
next
  fix sys assume "matchingLabs sys labs \<noteq> []"
  then have "assess sys (matchingLabs sys labs) \<in> set (calculateOrganSystemRisks labs)"
    by (auto simp: emitted_iff)
  then show "\<exists>r \<in> set (calculateOrganSystemRisks labs). system r = systemName sys"
    by (rule bexI[rotated]) (simp add: assess_fields)
qed

text \<open>
  On the example the renal system matches the critical creatinine result and is emitted;
  no result matches the cardiac system, which is left out.
\<close>

theorem organ_system_risks_emitted_witness:
  "matchingLabs Renal organLabs \<noteq> [] \<and> matchingLabs Cardiac organLabs = []
   \<and> ''Renal'' \<in> system ` set (calculateOrganSystemRisks organLabs)
   \<and> ''Cardiac'' \<notin> system ` set (calculateOrganSystemRisks organLabs)"
proof -
  have m: "matchingLabs Renal organLabs \<noteq> []" "matchingLabs Cardiac organLabs = []"
    by (simp_all add: organLabs_matching)
  from organ_system_risks_emitted [of organLabs]
  have no: "matchingLabs Cardiac organLabs = [] \<longrightarrow>
              (\<forall>r \<in> set (calculateOrganSystemRisks organLabs). system r \<noteq> systemName Cardiac)"
    and yes: "matchingLabs Renal organLabs \<noteq> [] \<longrightarrow>
              (\<exists>r \<in> set (calculateOrganSystemRisks organLabs). system r = systemName Renal)"
    by blast+
  from yes m have "''Renal'' \<in> system ` set (calculateOrganSystemRisks organLabs)"
    by force
  moreover from no m have "''Cardiac'' \<notin> system ` set (calculateOrganSystemRisks organLabs)"
    by (auto simp: image_iff)
  ultimately show ?thesis using m by simp
qed

text \<open>
  C10. A result of status critical is counted in \<open>abnormalCount\<close> as well as in
  \<open>criticalCount\<close>: with \<open>a\<close> matching results of status abnormal and \<open>c\<close> of status
  critical, the score of an emitted system is \<open>min ((a + c) \<times> wA + c \<times> wC, 100)\<close>. A
  system whose only matching result is critical is emitted with the score \<open>wA + wC\<close>.
\<close>

theorem critical_counts_as_abnormal:
  "(\<forall>r \<in> set (calculateOrganSystemRisks labs).
      \<exists>sys. system r = systemName sys
        \<and> system_score r
            = min ((countStatus Abnormal (matchingLabs sys labs)
                     + countStatus Critical (matchingLabs sys labs)) * weightAbnormal sys
                   + countStatus Critical (matchingLabs sys labs) * weightCritical sys) 100)
   \<and> (\<forall>sys l. matchingLabs sys labs = [l] \<and> status l = Critical \<longrightarrow>
         (\<exists>r \<in> set (calculateOrganSystemRisks labs).
             system r = systemName sys
             \<and> system_score r = weightAbnormal sys + weightCritical sys))"
proof (intro conjI ballI allI impI)
  fix r assume "r \<in> set (calculateOrganSystemRisks labs)"
  then obtain sys where "r = assess sys (matchingLabs sys labs)"
    by (auto simp: emitted_iff)
  then show "\<exists>sys. system r = systemName sys
        \<and> system_score r
            = min ((countStatus Abnormal (matchingLabs sys labs)
                     + countStatus Critical (matchingLabs sys labs)) * weightAbnormal sys
                   + countStatus Critical (matchingLabs sys labs) * weightCritical sys) 100"
    by (intro exI[of _ sys]) (simp add: assess_fields countNonNormal_split)
next
  fix sys l
  assume a: "matchingLabs sys labs = [l] \<and> status l = Critical"
  then have "assess sys [l] \<in> set (calculateOrganSystemRisks labs)"
    unfolding emitted_iff by (intro exI[of _ sys]) simp
  moreover have "system_score (assess sys [l]) = min (weightAbnormal sys + weightCritical sys) 100"
    using a by (simp add: assess_fields countNonNormal_def countStatus_def)
  then have "system_score (assess sys [l]) = weightAbnormal sys + weightCritical sys"
    by (cases sys) simp_all
  ultimately show "\<exists>r \<in> set (calculateOrganSystemRisks labs).
             system r = systemName sys
             \<and> system_score r = weightAbnormal sys + weightCritical sys"
    by (intro bexI[of _ "assess sys [l]"]) (simp_all add: assess_fields)
qed

text \<open>The critical creatinine result alone gives the renal system 10 + 20 points.\<close>

theorem critical_counts_as_abnormal_witness:
  "matchingLabs Renal organLabs = [lab ''Creatinine'' ''Creatinine'' (Num (Fin 3)) Critical (Fin 0)]
   \<and> status (lab ''Creatinine'' ''Creatinine'' (Num (Fin 3)) Critical (Fin 0)) = Critical
   \<and> (''Renal'', 30) \<in> (\<lambda>r. (system r, system_score r)) ` set (calculateOrganSystemRisks organLabs)"
proof -
  have m: "matchingLabs Renal organLabs
             = [lab ''Creatinine'' ''Creatinine'' (Num (Fin 3)) Critical (Fin 0)]"
    by (simp add: organLabs_matching)
  have s: "status (lab ''Creatinine'' ''Creatinine'' (Num (Fin 3)) Critical (Fin 0)) = Critical"
    by (simp add: lab_def)
  from critical_counts_as_abnormal [of organLabs] m s
  have "\<exists>r \<in> set (calculateOrganSystemRisks organLabs).
          system r = systemName Renal \<and> system_score r = weightAbnormal Renal + weightCritical Renal"
    by blast
  then obtain r where r: "r \<in> set (calculateOrganSystemRisks organLabs)"
      "system r = ''Renal''" "system_score r = 30"
    by auto
  have "(''Renal'', 30) = (\<lambda>r. (system r, system_score r)) r"
    using r by simp
  then have "(''Renal'', 30)
               \<in> (\<lambda>r. (system r, system_score r)) ` set (calculateOrganSystemRisks organLabs)"
    using r(1) by (rule image_eqI)
  then show ?thesis using m s by simp
qed

subsection \<open>Patient risk\<close>

lemma calculatePatientRisk_fields:
  "score (calculatePatientRisk now labs)
     = min (min (countStatus Critical (recentLabs now labs) * 15) 45
            + min (countStatus Abnormal (recentLabs now labs) * 3) 30
            + fst (checkHighRiskMarkers (recentLabs now labs))) 100"
  "level (calculatePatientRisk now labs)
     = levelOf (min (countStatus Critical (recentLabs now labs) * 15) 45
            + min (countStatus Abnormal (recentLabs now labs) * 3) 30
            + fst (checkHighRiskMarkers (recentLabs now labs)))"
  "sum_list (map contribution (factors (calculatePatientRisk now labs)))
     = min (countStatus Critical (recentLabs now labs) * 15) 45
            + min (countStatus Abnormal (recentLabs now labs) * 3) 30
            + fst (checkHighRiskMarkers (recentLabs now labs))"
  by (simp_all add: calculatePatientRisk_def Let_def countStatus_def)

text \<open>
  C1. For every list of results and every time of the call, the score of the returned
  \<open>RiskScore\<close> is the sum of the contributions of its factors, cut off at 100; that
  sum is \<open>min (15 \<times> critical, 45) + min (3 \<times> abnormal, 30)\<close> plus the points of the
  marker patterns, counted over the results of the last two days. The score lies between
  0 and 100, and the level follows the breakpoints 80, 60 and 40 of the returned score.
  A window with two critical results, one abnormal result and no marker pattern gives
  the score 33 and the level low. All these numbers are small naturals, which the
  numbers of the program represent exactly.
\<close>

theorem patient_risk_score:
  "score (calculatePatientRisk now labs)
     = min (sum_list (map contribution (factors (calculatePatientRisk now labs)))) 100
   \<and> sum_list (map contribution (factors (calculatePatientRisk now labs)))
       = min (countStatus Critical (recentLabs now labs) * 15) 45
         + min (countStatus Abnormal (recentLabs now labs) * 3) 30
         + fst (checkHighRiskMarkers (recentLabs now labs))
   \<and> 0 \<le> score (calculatePatientRisk now labs)
   \<and> score (calculatePatientRisk now labs) \<le> 100
   \<and> (level (calculatePatientRisk now labs) = LCritical
        \<longleftrightarrow> score (calculatePatientRisk now labs) \<ge> 80)
   \<and> (level (calculatePatientRisk now labs) = LHigh
        \<longleftrightarrow> 60 \<le> score (calculatePatientRisk now labs)
            \<and> score (calculatePatientRisk now labs) < 80)
   \<and> (level (calculatePatientRisk now labs) = LModerate
        \<longleftrightarrow> 40 \<le> score (calculatePatientRisk now labs)
            \<and> score (calculatePatientRisk now labs) < 60)
   \<and> (level (calculatePatientRisk now labs) = LLow
        \<longleftrightarrow> score (calculatePatientRisk now labs) < 40)
   \<and> (countStatus Critical (recentLabs now labs) = 2
        \<and> countStatus Abnormal (recentLabs now labs) = 1
        \<and> fst (checkHighRiskMarkers (recentLabs now labs)) = 0
        \<longrightarrow> score (calculatePatientRisk now labs) = 33
            \<and> level (calculatePatientRisk now labs) = LLow)"
proof -
  define t where "t = min (countStatus Critical (recentLabs now labs) * 15) 45
         + min (countStatus Abnormal (recentLabs now labs) * 3) 30
         + fst (checkHighRiskMarkers (recentLabs now labs))"
  have s: "score (calculatePatientRisk now labs) = min t 100"
    and l: "level (calculatePatientRisk now labs) = levelOf t"
    and f: "sum_list (map contribution (factors (calculatePatientRisk now labs))) = t"
    by (simp_all add: calculatePatientRisk_fields t_def)
  have levels: "(levelOf t = LCritical \<longleftrightarrow> min t 100 \<ge> 80)"
    "(levelOf t = LHigh \<longleftrightarrow> 60 \<le> min t 100 \<and> min t 100 < 80)"
    "(levelOf t = LModerate \<longleftrightarrow> 40 \<le> min t 100 \<and> min t 100 < 60)"
    "(levelOf t = LLow \<longleftrightarrow> min t 100 < 40)"
    by (auto simp: levelOf_def)
  have special: "countStatus Critical (recentLabs now labs) = 2
        \<and> countStatus Abnormal (recentLabs now labs) = 1
        \<and> fst (checkHighRiskMarkers (recentLabs now labs)) = 0
        \<longrightarrow> min t 100 = 33 \<and> levelOf t = LLow"
    by (simp add: t_def levelOf_def)
  show ?thesis
    unfolding s l f using levels special by (simp add: t_def)
qed

lemma riskLabs_window:
  "countStatus Critical (recentLabs 1700000000000 riskLabs) = 2"
  "countStatus Abnormal (recentLabs 1700000000000 riskLabs) = 1"
  "fst (checkHighRiskMarkers (recentLabs 1700000000000 riskLabs)) = 0"
  by code_simp+

text \<open>The example window has two critical results, one abnormal one and no marker.\<close>

theorem patient_risk_score_witness:
  "countStatus Critical (recentLabs 1700000000000 riskLabs) = 2
   \<and> countStatus Abnormal (recentLabs 1700000000000 riskLabs) = 1
   \<and> fst (checkHighRiskMarkers (recentLabs 1700000000000 riskLabs)) = 0
   \<and> score (calculatePatientRisk 1700000000000 riskLabs) = 33
   \<and> level (calculatePatientRisk 1700000000000 riskLabs) = LLow"
  using patient_risk_score [of 1700000000000 riskLabs] riskLabs_window by simp

lemma js_gt_not_NaN: "js_gt x y \<Longrightarrow> \<not> isNaN x"
  by (cases x; cases y) (simp_all add: js_gt_def)

lemma checkHighRiskMarkers_patterns:
  "checkHighRiskMarkers w =
     ((if akiPattern w then 15 else 0) + otherMarkerPoints w,
      (if akiPattern w then [''AKI Risk''] else []) @ otherMarkerNames w)"
proof -
  have aki: "(case js_find (codeHas ''creatinine'') w of
               Some c \<Rightarrow>
                 if status c \<noteq> Normal then
                   (if \<not> isNaN (parseFloat (val c)) \<and> js_gt (parseFloat (val c)) (Fin 2.0)
                    then (0 + 15, [] @ [''AKI Risk''])
                    else (0, []))
                 else (0, [])
             | None \<Rightarrow> (0, []))
           = (if akiPattern w then (15::nat, [''AKI Risk'']) else (0, []))"
    by (auto simp: akiPattern_def js_gt_not_NaN split: option.splits)
  show ?thesis
    unfolding checkHighRiskMarkers_def Let_def aki
    by (simp add: otherMarkerPoints_def otherMarkerNames_def sepsisPattern_def
          hepaticPattern_def coagulopathyPattern_def)
qed

lemma join_Cons_prefix: "prefix x (join sep (x # xs))"
  by (cases xs) simp_all

lemma akiLabs_eval:
  "creatinineHigh \<in> set (recentLabs 1700000000000 akiLabs)"
  "codeHas ''creatinine'' creatinineHigh"
  "status creatinineHigh \<noteq> Normal"
  "\<not> isNaN (parseFloat (val creatinineHigh))"
  "js_gt (parseFloat (val creatinineHigh)) (Fin 2)"
  "''AKI Risk'' \<notin> set (snd (checkHighRiskMarkers (recentLabs 1700000000000 akiLabs)))"
  "map factor_name (factors (calculatePatientRisk 1700000000000 akiLabs)) = [''Critical Values'']"
  by code_simp+

lemma rev_akiLabs_eval:
  "js_find (codeHas ''creatinine'') (recentLabs 1700000000000 (rev akiLabs)) = Some creatinineHigh"
  "map (\<lambda>f. (factor_name f, factor_value f, contribution f))
       (factors (calculatePatientRisk 1700000000000 (rev akiLabs)))
     = [(''Critical Values'', ''1 critical'', 15), (''High-Risk Markers'', ''AKI Risk'', 15)]"
  by code_simp+

text \<open>
  C5, as the claim states it, fails. In the window \<open>akiLabs\<close> the second creatinine
  result is critical with the value 3.0, yet no AKI marker is raised and the only
  factor is that of the critical values: the check reads the first creatinine result,
  which is normal.
\<close>

theorem aki_any_creatinine_counterexample:
  "creatinineHigh \<in> set (recentLabs 1700000000000 akiLabs)
   \<and> codeHas ''creatinine'' creatinineHigh
   \<and> status creatinineHigh \<noteq> Normal
   \<and> \<not> isNaN (parseFloat (val creatinineHigh))
   \<and> js_gt (parseFloat (val creatinineHigh)) (Fin 2)
   \<and> ''AKI Risk'' \<notin> set (snd (checkHighRiskMarkers (recentLabs 1700000000000 akiLabs)))
   \<and> map factor_name (factors (calculatePatientRisk 1700000000000 akiLabs)) = [''Critical Values'']"
  by (intro conjI akiLabs_eval)

text \<open>
  C5, amended. If the first creatinine-coded result of the 48-hour window is not normal
  and has a numeric value above 2.0, then the marker list contains \<open>AKI Risk\<close>, the
  marker score is 15 plus the points of the other three patterns, and the factor list
  has a \<open>High-Risk Markers\<close> factor with that contribution whose text starts with
  \<open>AKI Risk\<close>. The other patterns neither enable nor suppress it.
\<close>

theorem aki_first_creatinine:
  "js_find (codeHas ''creatinine'') (recentLabs now labs) = Some c
     \<and> status c \<noteq> Normal \<and> \<not> isNaN (parseFloat (val c)) \<and> js_gt (parseFloat (val c)) (Fin 2)
   \<longrightarrow> ''AKI Risk'' \<in> set (snd (checkHighRiskMarkers (recentLabs now labs)))
       \<and> fst (checkHighRiskMarkers (recentLabs now labs))
           = 15 + otherMarkerPoints (recentLabs now labs)
       \<and> (\<exists>f \<in> set (factors (calculatePatientRisk now labs)).
             factor_name f = ''High-Risk Markers''
             \<and> prefix ''AKI Risk'' (factor_value f)
             \<and> contribution f = 15 + otherMarkerPoints (recentLabs now labs))"
proof (intro impI)
  assume a: "js_find (codeHas ''creatinine'') (recentLabs now labs) = Some c
     \<and> status c \<noteq> Normal \<and> \<not> isNaN (parseFloat (val c)) \<and> js_gt (parseFloat (val c)) (Fin 2)"
  let ?w = "recentLabs now labs"
  from a have p: "akiPattern ?w" by (simp add: akiPattern_def)
  then have m: "checkHighRiskMarkers ?w
                  = (15 + otherMarkerPoints ?w, ''AKI Risk'' # otherMarkerNames ?w)"
    by (simp add: checkHighRiskMarkers_patterns)
  let ?f = "\<lparr> factor_name = ''High-Risk Markers'', weight = 0.40,
               factor_value = join '', '' (''AKI Risk'' # otherMarkerNames ?w),
               contribution = 15 + otherMarkerPoints ?w \<rparr>"
  have "?f \<in> set (factors (calculatePatientRisk now labs))"
    by (simp add: calculatePatientRisk_def Let_def m)
  moreover have "prefix ''AKI Risk'' (factor_value ?f)"
    using join_Cons_prefix [of "''AKI Risk''" "'', ''" "otherMarkerNames ?w"] by simp
  ultimately have "\<exists>f \<in> set (factors (calculatePatientRisk now labs)).
             factor_name f = ''High-Risk Markers''
             \<and> prefix ''AKI Risk'' (factor_value f)
             \<and> contribution f = 15 + otherMarkerPoints ?w"
    by (intro bexI[of _ ?f]) simp_all
  with m show "''AKI Risk'' \<in> set (snd (checkHighRiskMarkers (recentLabs now labs)))
       \<and> fst (checkHighRiskMarkers (recentLabs now labs))
           = 15 + otherMarkerPoints (recentLabs now labs)
       \<and> (\<exists>f \<in> set (factors (calculatePatientRisk now labs)).
             factor_name f = ''High-Risk Markers''
             \<and> prefix ''AKI Risk'' (factor_value f)
             \<and> contribution f = 15 + otherMarkerPoints (recentLabs now labs))"
    by simp
qed

text \<open>With the two results in the other order the critical one is read, and the marker is raised.\<close>

theorem aki_first_creatinine_witness:
  "js_find (codeHas ''creatinine'') (recentLabs 1700000000000 (rev akiLabs)) = Some creatinineHigh
   \<and> status creatinineHigh \<noteq> Normal
   \<and> \<not> isNaN (parseFloat (val creatinineHigh))
   \<and> js_gt (parseFloat (val creatinineHigh)) (Fin 2)
   \<and> ''AKI Risk'' \<in> set (snd (checkHighRiskMarkers (recentLabs 1700000000000 (rev akiLabs))))"
  using aki_first_creatinine [of 1700000000000 "rev akiLabs" creatinineHigh]
    rev_akiLabs_eval(1) akiLabs_eval(3,4,5)
  by simp

subsection \<open>MELD\<close>

lemma Math_max_Fin: "Math_max (Fin a) (Fin b) = Fin (max a b)"
  by (simp add: Math_max_def max_def)

lemma Math_min_Fin: "Math_min (Fin a) (Fin b) = Fin (min a b)"
  by (simp add: Math_min_def min_def)

lemma round_clamp_real:
  "\<lfloor>min (max a 6) 40 + 1 / 2\<rfloor> = max 6 (min 40 \<lfloor>a + 1 / (2::real)\<rfloor>)"
proof -
  consider "a < 6" | "6 \<le> a" "a \<le> 40" | "40 < a" by linarith
  then show ?thesis
  proof cases
    case 1
    then have "\<lfloor>a + 1 / 2\<rfloor> \<le> 6" by linarith
    moreover have "\<lfloor>(6::real) + 1 / 2\<rfloor> = 6" by linarith
    moreover have "min (max a 6) 40 = 6" using 1 by simp
    ultimately show ?thesis by simp
  next
    case 2
    then have "6 \<le> \<lfloor>a + 1 / 2\<rfloor>" "\<lfloor>a + 1 / 2\<rfloor> \<le> 40"
      by linarith+
    moreover have "min (max a 6) 40 = a" using 2 by simp
    ultimately show ?thesis by simp
  next
    case 3
    then have "40 \<le> \<lfloor>a + 1 / 2\<rfloor>" by linarith
    moreover have "\<lfloor>(40::real) + 1 / 2\<rfloor> = 40" by linarith
    moreover have "min (max a 6) 40 = 40" using 3 by simp
    ultimately show ?thesis by simp
  qed
qed

text \<open>The program clamps and then rounds; the bounds are integers, so the order is immaterial.\<close>

lemma round_clamp_commute:
  "Math_round (Math_min (Math_max x (Fin 6)) (Fin 40))
     = Math_max (Fin 6) (Math_min (Fin 40) (Math_round x))"
proof (cases x)
  case (Fin a)
  have "Math_round (Math_min (Math_max (Fin a) (Fin 6)) (Fin 40))
          = Fin (of_int \<lfloor>min (max a 6) 40 + 1 / 2\<rfloor>)"
    by (simp only: Math_max_Fin Math_min_Fin Math_round.simps)
  moreover have "Math_max (Fin 6) (Math_min (Fin 40) (Math_round (Fin a)))
          = Fin (of_int (max 6 (min 40 \<lfloor>a + 1 / 2\<rfloor>)))"
    by (simp add: Math_max_Fin Math_min_Fin)
  ultimately show ?thesis using Fin by (simp only: round_clamp_real)
qed (simp_all add: Math_min_def Math_max_def)

lemma calculateMELD_cases:
  "calculateMELD labs =
     (case (namedResult ''bilirubin'' labs, namedResult ''inr'' labs,
            namedResult ''creatinine'' labs) of
        (Some b, Some i, Some c) \<Rightarrow>
          if nonNumeric b \<or> nonNumeric i \<or> nonNumeric c then None
          else Some (meldFormula (parseFloat (val b)) (parseFloat (val i)) (parseFloat (val c)))
      | _ \<Rightarrow> None)"
  by (simp add: calculateMELD_def namedResult_def nonNumeric_def meldFormula_def Let_def
        round_clamp_commute split: option.splits)

lemma meldFormula_Fin: "meldFormula (Fin x) (Fin y) (Fin z) = Fin (of_int (meldReal x y z))"
proof -
  have l: "Math_log (Math_max (Fin a) (Fin 1)) = Fin (ln (max a 1))" for a
    by (simp add: Math_max_Fin)
  have c: "Math_max (Fin 6) (Math_min (Fin 40) (Fin (of_int n))) = Fin (of_int (max 6 (min 40 n)))"
    for n :: int
    by (simp add: Math_max_Fin Math_min_Fin)
  show ?thesis
    unfolding meldFormula_def meldReal_def l
    by (simp add: round_def c)
qed

lemma meldReal_ones: "meldReal 1 1 1 = 6"
proof -
  have "round (6.43 :: real) = 6" by (simp add: round_def floor_eq_iff)
  then show ?thesis by (simp add: meldReal_def)
qed

lemma meldLabs_eval:
  "namedResult ''bilirubin'' meldLabs = Some bilirubinOne"
  "namedResult ''inr'' meldLabs = Some inrOne"
  "namedResult ''creatinine'' meldLabs = Some creatinineOne"
  "parseFloat (val bilirubinOne) = Fin 1"
  "parseFloat (val inrOne) = Fin 1"
  "parseFloat (val creatinineOne) = Fin 1"
  "namedResult ''inr'' [bilirubinOne, creatinineOne] = None"
  by code_simp+

text \<open>
  C6. The bilirubin, INR and creatinine results are the first results of the list whose
  code contains \<open>bilirubin\<close>, \<open>inr\<close> and \<open>creatinine\<close>; a value is numeric when
  \<open>parseFloat\<close> reads a number from it. \<open>calculateMELD\<close> returns null exactly when one of
  the three results is missing or has a non-numeric value. Otherwise it returns the
  formula \<open>3.78 ln (max b 1) + 11.2 ln (max i 1) + 9.57 ln (max c 1) + 6.43\<close>, rounded to
  the nearest integer and clamped to the interval from 6 to 40; for finite values this
  is the integer \<open>meldReal b i c\<close> of real arithmetic. For three values of 1.0 the
  result is 6.
\<close>

theorem meld_spec:
  "(calculateMELD labs = None \<longleftrightarrow>
      namedResult ''bilirubin'' labs = None \<or> namedResult ''inr'' labs = None
      \<or> namedResult ''creatinine'' labs = None
      \<or> (\<exists>b. namedResult ''bilirubin'' labs = Some b \<and> nonNumeric b)
      \<or> (\<exists>i. namedResult ''inr'' labs = Some i \<and> nonNumeric i)
      \<or> (\<exists>c. namedResult ''creatinine'' labs = Some c \<and> nonNumeric c))
   \<and> (\<forall>b i c. namedResult ''bilirubin'' labs = Some b \<and> namedResult ''inr'' labs = Some i
         \<and> namedResult ''creatinine'' labs = Some c
         \<and> \<not> nonNumeric b \<and> \<not> nonNumeric i \<and> \<not> nonNumeric c \<longrightarrow>
         calculateMELD labs
           = Some (meldFormula (parseFloat (val b)) (parseFloat (val i)) (parseFloat (val c)))
         \<and> (\<forall>x y z. parseFloat (val b) = Fin x \<and> parseFloat (val i) = Fin y
               \<and> parseFloat (val c) = Fin z \<longrightarrow>
               calculateMELD labs = Some (Fin (of_int (meldReal x y z))))
         \<and> (parseFloat (val b) = Fin 1 \<and> parseFloat (val i) = Fin 1
               \<and> parseFloat (val c) = Fin 1 \<longrightarrow> calculateMELD labs = Some (Fin 6)))"
  by (auto simp add: calculateMELD_cases meldFormula_Fin meldReal_ones split: option.splits)

text \<open>
  The example list gives 6; without the INR result there is no score.
\<close>

theorem meld_spec_witness:
  "namedResult ''bilirubin'' meldLabs = Some bilirubinOne
   \<and> namedResult ''inr'' meldLabs = Some inrOne
   \<and> namedResult ''creatinine'' meldLabs = Some creatinineOne
   \<and> parseFloat (val bilirubinOne) = Fin 1 \<and> parseFloat (val inrOne) = Fin 1
   \<and> parseFloat (val creatinineOne) = Fin 1
   \<and> calculateMELD meldLabs = Some (Fin 6)
   \<and> namedResult ''inr'' [bilirubinOne, creatinineOne] = None
   \<and> calculateMELD [bilirubinOne, creatinineOne] = None"
proof -
  have n: "\<not> nonNumeric bilirubinOne" "\<not> nonNumeric inrOne" "\<not> nonNumeric creatinineOne"
    by (simp_all add: nonNumeric_def meldLabs_eval)
  from meld_spec [of meldLabs] meldLabs_eval n
  have "calculateMELD meldLabs = Some (Fin 6)"
    by blast
  moreover from meld_spec [of "[bilirubinOne, creatinineOne]"] meldLabs_eval(7)
  have "calculateMELD [bilirubinOne, creatinineOne] = None"
    by blast
  ultimately show ?thesis by (simp add: meldLabs_eval)
qed

subsection \<open>Deterioration\<close>

lemma js_arith_NaN [simp]:
  "js_add x NaN = NaN" "js_mul x NaN = NaN" "js_div x NaN = NaN" "js_mul NaN x = NaN"
  "js_div NaN x = NaN" "js_add NaN x = NaN" "js_sub x NaN = NaN" "js_sub NaN x = NaN"
  "\<not> js_gt NaN x" "\<not> js_gt x NaN" "\<not> js_lt x NaN" "\<not> js_lt NaN x"
  by (cases x; simp add: js_sub_def js_gt_def)+

lemma isNaN_iff: "isNaN x \<longleftrightarrow> x = NaN"
  by (cases x) simp_all

lemma worseningStep_add:
  "worseningStep previousLabs n c = n + worseningOf previousLabs c"
  by (auto simp add: worseningStep_def worseningOf_def matchedPrevious_def statusEscalated_def
        percentIncrease_def Let_def isNaN_iff split: option.splits)

lemma foldl_worseningStep:
  "foldl (worseningStep previousLabs) n cs = n + sum_list (map (worseningOf previousLabs) cs)"
  by (induction cs arbitrary: n) (simp_all add: worseningStep_add)

lemma windows_eval:
  "previousWindow \<noteq> []"
  "worseningTotal currentWindow previousWindow = 3"
  "worseningTotal (take 2 currentWindow) previousWindow = 2"
  "glucoseNew \<in> set currentWindow"
  "matchedPrevious previousWindow glucoseNew = None"
  by code_simp+

text \<open>
  C7. \<open>detectDeterioration\<close> is false when the previous list is empty. Otherwise it is
  true exactly when the worsening count is at least 3, where each current result that
  has a previous result of the same code adds 1 for an escalation of the status (to
  critical from non-critical, or to abnormal from normal), 1 more if its code contains
  \<open>creatinine\<close> and the percent change of the value exceeds 25, and 1 more if its code
  contains \<open>lactate\<close> and the percent change exceeds 20. A current result without a
  previous result of the same code adds nothing.
\<close>

theorem deterioration_spec:
  "(previousLabs = [] \<longrightarrow> \<not> detectDeterioration currentLabs previousLabs)
   \<and> (previousLabs \<noteq> [] \<longrightarrow>
        (detectDeterioration currentLabs previousLabs
           \<longleftrightarrow> worseningTotal currentLabs previousLabs \<ge> 3))
   \<and> (\<forall>c \<in> set currentLabs. matchedPrevious previousLabs c = None
         \<longrightarrow> worseningOf previousLabs c = 0)"
  by (simp add: detectDeterioration_def foldl_worseningStep worseningTotal_def worseningOf_def)

text \<open>
  Three matched escalations give true, the first two alone give false, an empty
  previous list gives false, and the unmatched glucose result counts for nothing.
\<close>

theorem deterioration_spec_witness:
  "previousWindow \<noteq> []
   \<and> worseningTotal currentWindow previousWindow = 3
   \<and> detectDeterioration currentWindow previousWindow
   \<and> worseningTotal (take 2 currentWindow) previousWindow = 2
   \<and> \<not> detectDeterioration (take 2 currentWindow) previousWindow
   \<and> \<not> detectDeterioration currentWindow []
   \<and> glucoseNew \<in> set currentWindow
   \<and> matchedPrevious previousWindow glucoseNew = None
   \<and> worseningOf previousWindow glucoseNew = 0"
proof -
  from deterioration_spec [of previousWindow currentWindow] windows_eval
  have "detectDeterioration currentWindow previousWindow"
    "worseningOf previousWindow glucoseNew = 0"
    by auto
  moreover from deterioration_spec [of previousWindow "take 2 currentWindow"] windows_eval
  have "\<not> detectDeterioration (take 2 currentWindow) previousWindow"
    by auto
  moreover from deterioration_spec [of "[]" currentWindow]
  have "\<not> detectDeterioration currentWindow []"
    by simp
  ultimately show ?thesis by (simp add: windows_eval)
qed

subsection \<open>Trends\<close>

lemma js_le_not_gt: "js_le d z \<Longrightarrow> \<not> js_gt d z"
  by (simp add: js_le_def js_gt_def)

lemma trendOfSorted_fields:
  assumes "trendOfSorted n s = Some t"
  shows "previousValue t = None \<Longrightarrow> delta t = None \<and> deltaPercent t = None \<and> trend t = TStable"
    and "previousValue t = Some p \<Longrightarrow>
           delta t = Some (js_sub (currentValue t) p)
           \<and> deltaPercent t = Some (js_mul (js_div (js_sub (currentValue t) p) p) (Fin 100))
           \<and> trend t = classifyTrend (js_sub (currentValue t) p)
                          (js_mul (js_div (js_sub (currentValue t) p) p) (Fin 100))"
    and "labName t = n"
  using assms
  by (auto simp add: trendOfSorted_def Let_def split: list.splits prod.splits option.splits)

lemma numericValues_numericOnly: "numericValues s = map snd (numericOnly s)"
  unfolding numericValues_def numericOnly_def
  by (induction s) (auto split: LabValue.splits)

lemma trendOfSorted_values:
  assumes "trendOfSorted n s = Some t"
  shows "\<exists>vs. numericValues s = currentValue t # vs
              \<and> previousValue t = (case vs of [] \<Rightarrow> None | p # _ \<Rightarrow> Some p)"
  using assms
  by (auto simp add: trendOfSorted_def numericValues_numericOnly Let_def
        split: list.splits prod.splits option.splits)

lemma numericOnly_Nil_sorted: "s = [] \<Longrightarrow> numericOnly s = []"
  by (simp add: numericOnly_def)

lemma trendOfSorted_None_iff: "trendOfSorted n s = None \<longleftrightarrow> numericValues s = []"
  by (cases s; cases "numericOnly s")
     (auto simp add: trendOfSorted_def numericValues_numericOnly numericOnly_Nil_sorted Let_def
        split: list.splits prod.splits option.splits)

text \<open>On results whose dates parse the sort of the program is the stable sort by time, newest first.\<close>

lemma insertSorted_insort_key:
  assumes "effectiveDateTime x = Fin a" and "datesParse ys"
  shows "insertSorted byDateDescending x ys = insort_key (\<lambda>l. - timeOf l) x ys"
  using assms(2)
proof (induction ys)
  case Nil
  then show ?case by simp
next
  case (Cons y ys)
  then obtain b where b: "effectiveDateTime y = Fin b"
    by (cases "effectiveDateTime y") (simp_all add: datesParse_def)
  from Cons have "datesParse ys" by (simp add: datesParse_def)
  with Cons.IH have ih: "insertSorted byDateDescending x ys = insort_key (\<lambda>l. - timeOf l) x ys"
    by simp
  have c: "js_gt (byDateDescending x y) (Fin 0) \<longleftrightarrow> a < b"
    using assms(1) b by (simp add: byDateDescending_def js_sub_def js_gt_def)
  have t: "timeOf x = a" "timeOf y = b"
    using assms(1) b by (simp_all add: timeOf_def)
  show ?case
    using ih c t by auto
qed

lemma js_sort_newestFirst:
  "datesParse rs \<Longrightarrow> js_sort byDateDescending rs = newestFirst rs"
proof (induction rs)
  case Nil
  then show ?case by (simp add: js_sort_def newestFirst_def)
next
  case (Cons x xs)
  then obtain a where a: "effectiveDateTime x = Fin a"
    by (cases "effectiveDateTime x") (simp_all add: datesParse_def)
  from Cons.prems have p: "datesParse xs" by (simp add: datesParse_def)
  then have "datesParse (newestFirst xs)"
    by (simp add: datesParse_def newestFirst_def list_all_iff)
  with insertSorted_insort_key [OF a]
  have "insertSorted byDateDescending x (newestFirst xs)
          = insort_key (\<lambda>l. - timeOf l) x (newestFirst xs)"
    by simp
  moreover have "js_sort byDateDescending (x # xs)
                   = insertSorted byDateDescending x (js_sort byDateDescending xs)"
    by (simp add: js_sort_def)
  ultimately show ?case using Cons.IH [OF p]
    by (simp add: newestFirst_def)
qed

text \<open>The groups: one for each name, holding the results of that name in the order of the input.\<close>

lemma named_append: "named n (xs @ ys) = named n xs @ named n ys"
  by (simp add: named_def)

lemma named_Nil_iff: "named n xs = [] \<longleftrightarrow> n \<notin> name ` set xs"
  by (auto simp add: named_def filter_empty_conv)

lemma groupLoop_groups:
  assumes "groupLoop grouped rest = Inr g"
    and "distinct (map fst grouped)"
    and "fst ` set grouped = name ` set seen"
    and "\<forall>(n, rs) \<in> set grouped. rs = named n seen"
  shows "distinct (map fst g) \<and> fst ` set g = name ` set (seen @ rest)
         \<and> (\<forall>(n, rs) \<in> set g. rs = named n (seen @ rest))"
  using assms
proof (induction rest arbitrary: grouped seen)
  case Nil
  then show ?case by simp
next
  case (Cons r rest)
  let ?key = "name r"
  show ?case
  proof (cases "map_of grouped ?key")
    case None
    with Cons.prems(1) have np: "?key \<notin> set objectPrototypeKeys"
      and step: "groupLoop (grouped @ [(?key, [r])]) rest = Inr g"
      by (auto simp add: Let_def split: if_splits)
    from None have nk: "?key \<notin> fst ` set grouped"
      by (simp add: map_of_eq_None_iff)
    with Cons.prems(3) have e: "named ?key seen = []"
      by (simp add: named_Nil_iff)
    have 1: "distinct (map fst (grouped @ [(?key, [r])]))"
      using Cons.prems(2) nk by simp
    have 2: "fst ` set (grouped @ [(?key, [r])]) = name ` set (seen @ [r])"
      using Cons.prems(3) by auto
    have 3: "\<forall>(n, rs) \<in> set (grouped @ [(?key, [r])]). rs = named n (seen @ [r])"
    proof (clarify)
      fix n rs assume m: "(n, rs) \<in> set (grouped @ [(?key, [r])])"
      show "rs = named n (seen @ [r])"
      proof (cases "(n, rs) \<in> set grouped")
        case True
        with Cons.prems(4) have "rs = named n seen" by auto
        moreover from True nk have "n \<noteq> ?key" by force
        ultimately show ?thesis by (simp add: named_def)
      next
        case False
        with m have "n = ?key" "rs = [r]" by auto
        with e show ?thesis by (simp add: named_def)
      qed
    qed
    from Cons.IH [OF step 1 2 3] show ?thesis by simp
  next
    case (Some old)
    let ?g' = "map (\<lambda>(k, v). if k = ?key then (k, v @ [r]) else (k, v)) grouped"
    from Some Cons.prems(1) have step: "groupLoop ?g' rest = Inr g"
      by (simp add: Let_def)
    have f: "map fst ?g' = map fst grouped"
      by (induction grouped) auto
    from Some have "(?key, old) \<in> set grouped" by (rule map_of_SomeD)
    then have k: "?key \<in> fst ` set grouped" by force
    have 1: "distinct (map fst ?g')"
      unfolding f using Cons.prems(2) .
    have "fst ` set ?g' = fst ` set grouped"
      using f by (metis list.set_map)
    with k Cons.prems(3) have 2: "fst ` set ?g' = name ` set (seen @ [r])"
      by auto
    have 3: "\<forall>(n, rs) \<in> set ?g'. rs = named n (seen @ [r])"
    proof (clarify)
      fix n rs assume "(n, rs) \<in> set ?g'"
      then obtain k v where kv: "(k, v) \<in> set grouped"
        and e: "(n, rs) = (if k = ?key then (k, v @ [r]) else (k, v))"
        by auto
      from kv Cons.prems(4) have "v = named k seen" by auto
      with e show "rs = named n (seen @ [r])"
        by (auto simp add: named_def split: if_splits)
    qed
    from Cons.IH [OF step 1 2 3] show ?thesis by simp
  qed
qed

lemma groupLabsByType_groups:
  assumes "groupLabsByType labs = Inr g"
  shows "distinct (map fst g)" and "fst ` set g = name ` set labs"
    and "(n, rs) \<in> set g \<Longrightarrow> rs = named n labs"
  using groupLoop_groups [of "[]" labs g "[]"] assms
  by (auto simp add: groupLabsByType_def named_def)

lemma groupLoop_returns:
  "\<forall>l \<in> set labs. name l \<notin> set objectPrototypeKeys \<Longrightarrow> \<exists>g. groupLoop grouped labs = Inr g"
  by (induction labs arbitrary: grouped) (auto simp add: Let_def split: option.splits)

lemma in_set_map_filter:
  "y \<in> set (List.map_filter f xs) \<longleftrightarrow> (\<exists>x \<in> set xs. f x = Some y)"
  by (induction xs) (auto split: option.splits)

lemma set_objectEntries: "set (objectEntries props) = set props"
  by (auto simp add: objectEntries_def)

lemma objectEntries_single: "objectEntries [p] = [p]"
  by (cases p) (simp add: objectEntries_def)

lemma distinct_objectEntries:
  assumes "distinct (map fst props)"
  shows "distinct (map fst (objectEntries props))"
proof -
  from assms have d: "distinct props" and i: "inj_on fst (set props)"
    by (simp_all add: distinct_map)
  have "distinct (objectEntries props)"
    unfolding objectEntries_def using d by auto
  moreover have "set (objectEntries props) = set props"
    by (rule set_objectEntries)
  ultimately show ?thesis
    using i by (simp add: distinct_map)
qed

lemma labName_map_filter:
  "map labName (List.map_filter (\<lambda>(n, rs). groupTrend n rs) es)
     = map fst (filter (\<lambda>(n, rs). groupTrend n rs \<noteq> None) es)"
  by (induction es)
     (auto simp add: groupTrend_def trendOfSorted_fields(3) split: option.splits)

lemma processLabTrends_groups:
  assumes "processLabTrends labs = Inr ts"
  obtains g where "groupLabsByType labs = Inr g"
    and "ts = List.map_filter (\<lambda>(n, rs). groupTrend n rs) (objectEntries g)"
  using assms by (auto simp add: processLabTrends_def split: sum.splits)

lemma datesParse_named: "datesParse labs \<Longrightarrow> datesParse (named n labs)"
  by (simp add: datesParse_def named_def list_all_iff)

lemma groupTrend_newestFirst:
  "datesParse rs \<Longrightarrow> groupTrend n rs = trendOfSorted n (newestFirst rs)"
  by (simp add: groupTrend_def js_sort_newestFirst)

lemma emitted_values:
  assumes "processLabTrends labs = Inr ts" and "datesParse labs" and "u \<in> set ts"
  shows "\<exists>vs. recentValues (labName u) labs = currentValue u # vs
              \<and> previousValue u = (case vs of [] \<Rightarrow> None | p # _ \<Rightarrow> Some p)"
proof -
  from assms(1) obtain g where g: "groupLabsByType labs = Inr g"
    and ts: "ts = List.map_filter (\<lambda>(n, rs). groupTrend n rs) (objectEntries g)"
    by (rule processLabTrends_groups)
  from assms(3) ts obtain m rs where m: "(m, rs) \<in> set g" and t: "groupTrend m rs = Some u"
    by (auto simp add: in_set_map_filter set_objectEntries)
  from groupLabsByType_groups(3) [OF g m] have rs: "rs = named m labs" .
  with assms(2) have "datesParse rs" by (simp add: datesParse_named)
  with t have s: "trendOfSorted m (newestFirst rs) = Some u"
    by (simp add: groupTrend_newestFirst)
  then have "labName u = m" by (rule trendOfSorted_fields(3))
  with trendOfSorted_values [OF s] rs show ?thesis
    by (simp add: recentValues_def)
qed

lemma every_numeric_name_emitted:
  assumes "processLabTrends labs = Inr ts" and "datesParse labs" and "recentValues m labs \<noteq> []"
  shows "\<exists>u \<in> set ts. labName u = m"
proof -
  from assms(1) obtain g where g: "groupLabsByType labs = Inr g"
    and ts: "ts = List.map_filter (\<lambda>(n, rs). groupTrend n rs) (objectEntries g)"
    by (rule processLabTrends_groups)
  from assms(3) have "named m labs \<noteq> []"
    by (auto simp add: recentValues_def newestFirst_def numericValues_def)
  then have "m \<in> name ` set labs" by (simp add: named_Nil_iff)
  with groupLabsByType_groups(2) [OF g] obtain rs where m: "(m, rs) \<in> set g"
    by force
  from groupLabsByType_groups(3) [OF g m] have rs: "rs = named m labs" .
  with assms(2) have "datesParse rs" by (simp add: datesParse_named)
  then have "groupTrend m rs = trendOfSorted m (newestFirst rs)"
    by (rule groupTrend_newestFirst)
  moreover from assms(3) rs have "trendOfSorted m (newestFirst rs) \<noteq> None"
    by (simp add: trendOfSorted_None_iff recentValues_def)
  ultimately obtain u where u: "groupTrend m rs = Some u" by auto
  with m ts have "u \<in> set ts"
    by (force simp add: in_set_map_filter set_objectEntries)
  moreover from u have "labName u = m"
    by (simp add: groupTrend_def trendOfSorted_fields(3))
  ultimately show ?thesis by blast
qed

lemma emitted_names_distinct:
  assumes "processLabTrends labs = Inr ts"
  shows "distinct (map labName ts)"
proof -
  from assms obtain g where g: "groupLabsByType labs = Inr g"
    and ts: "ts = List.map_filter (\<lambda>(n, rs). groupTrend n rs) (objectEntries g)"
    by (rule processLabTrends_groups)
  from groupLabsByType_groups(1) [OF g] have "distinct (map fst (objectEntries g))"
    by (rule distinct_objectEntries)
  then show ?thesis
    unfolding ts labName_map_filter by (rule distinct_map_filter)
qed

lemma emitted_member:
  assumes "processLabTrends labs = Inr ts" and "t \<in> set ts"
  shows "\<exists>n s. trendOfSorted n s = Some t"
  using assms
  by (fastforce simp add: processLabTrends_def groupTrend_def in_set_map_filter set_objectEntries
        split: sum.splits)

text \<open>A series of two results of one name, given in either order.\<close>

lemma two_point_series:
  assumes "name a = name b" "name a \<notin> set objectPrototypeKeys"
    and "val a = Num (Fin v1)" "val b = Num (Fin v2)"
    and "effectiveDateTime a = Fin t1" "effectiveDateTime b = Fin t2" "t1 < t2" "v1 \<noteq> 0"
    and "labs = [a, b] \<or> labs = [b, a]"
  shows "map_sum id (map trendSummary) (processLabTrends labs)
           = Inr [(Fin v2, Some (Fin v1), Some (Fin (v2 - v1)), Some (Fin ((v2 - v1) / v1 * 100)),
                   classifyTrend (Fin (v2 - v1)) (Fin ((v2 - v1) / v1 * 100)))]"
proof -
  have "map_sum id (map trendSummary) (processLabTrends [a, b])
           = Inr [(Fin v2, Some (Fin v1), Some (Fin (v2 - v1)), Some (Fin ((v2 - v1) / v1 * 100)),
                   classifyTrend (Fin (v2 - v1)) (Fin ((v2 - v1) / v1 * 100)))]"
    using assms(1-8)
    by (simp add: processLabTrends_def groupLabsByType_def Let_def groupTrend_def
          trendOfSorted_def js_sort_def byDateDescending_def js_sub_def js_gt_def
          numericOnly_def trendSummary_def objectEntries_single)
  moreover
  have "map_sum id (map trendSummary) (processLabTrends [b, a])
           = Inr [(Fin v2, Some (Fin v1), Some (Fin (v2 - v1)), Some (Fin ((v2 - v1) / v1 * 100)),
                   classifyTrend (Fin (v2 - v1)) (Fin ((v2 - v1) / v1 * 100)))]"
    using assms(1-8)
    by (simp add: processLabTrends_def groupLabsByType_def Let_def groupTrend_def
          trendOfSorted_def js_sort_def byDateDescending_def js_sub_def js_gt_def
          numericOnly_def trendSummary_def objectEntries_single)
  ultimately show ?thesis using assms(9) by blast
qed

lemma trend_of_summary:
  assumes "map_sum id (map trendSummary) r = Inr [(c, p, d, dp, tr)]"
  shows "map_sum id (map trend) r = Inr [tr]"
  using assms by (cases r) (auto simp add: trendSummary_def)

text \<open>
  C2. For every trend that \<open>processLabTrends\<close> emits, and for whatever order the sort
  leaves the results of a group in, the trend is stable if and only if the previous
  value is absent or the percent change is below 5 in absolute value; a trend that is
  not stable is rising when the change is positive and falling when it is zero or
  negative. The change and the percent change are those of the current and the previous
  value. When every date parses, the current and the previous value of the trend of a
  name are the two most recent numeric values among the results of that name, whatever
  the order of the input; every name with a numeric result has a trend, and no name has
  two. A series of two results, given in either order, whose newer value differs from a
  non-zero older value by 3 percent is stable, and one whose newer value lies 6 percent
  above is rising. A previous value of zero makes the percent change infinite or \<open>NaN\<close>
  and raises no error: unless the name of a result is a property of \<open>Object.prototype\<close>,
  \<open>processLabTrends\<close> returns.
\<close>

theorem trend_classification:
  "(trendOfSorted n rs = Some t \<or> (processLabTrends labs = Inr ts \<and> t \<in> set ts) \<longrightarrow>
      (trend t = TStable \<longleftrightarrow> stableCondition t)
      \<and> (\<forall>d. \<not> stableCondition t \<and> delta t = Some d \<and> js_gt d (Fin 0) \<longrightarrow> trend t = Rising)
      \<and> (\<forall>d. \<not> stableCondition t \<and> delta t = Some d \<and> js_le d (Fin 0) \<longrightarrow> trend t = Falling)
      \<and> (\<forall>p. previousValue t = Some p \<longrightarrow>
             delta t = Some (js_sub (currentValue t) p)
             \<and> deltaPercent t = Some (js_mul (js_div (js_sub (currentValue t) p) p) (Fin 100))))
   \<and> ((\<forall>l \<in> set labs. name l \<notin> set objectPrototypeKeys)
        \<longrightarrow> (\<exists>trends. processLabTrends labs = Inr trends))
   \<and> (processLabTrends labs = Inr ts \<longrightarrow>
        distinct (map labName ts)
        \<and> (datesParse labs \<longrightarrow>
             (\<forall>u \<in> set ts. \<exists>vs. recentValues (labName u) labs = currentValue u # vs
                  \<and> previousValue u = (case vs of [] \<Rightarrow> None | p # _ \<Rightarrow> Some p))
             \<and> (\<forall>m. recentValues m labs \<noteq> [] \<longrightarrow> (\<exists>u \<in> set ts. labName u = m))))
   \<and> (name a = name b \<and> name a \<notin> set objectPrototypeKeys
        \<and> val a = Num (Fin v1) \<and> val b = Num (Fin v2)
        \<and> effectiveDateTime a = Fin t1 \<and> effectiveDateTime b = Fin t2 \<and> t1 < t2 \<and> v1 \<noteq> 0
        \<and> (pair = [a, b] \<or> pair = [b, a])
        \<longrightarrow> (\<bar>v2 - v1\<bar> = 0.03 * \<bar>v1\<bar> \<longrightarrow>
               map_sum id (map trend) (processLabTrends pair) = Inr [TStable])
          \<and> (v2 - v1 = 0.06 * \<bar>v1\<bar> \<longrightarrow>
               map_sum id (map trend) (processLabTrends pair) = Inr [Rising]))"
proof (intro conjI impI)
  assume "trendOfSorted n rs = Some t \<or> (processLabTrends labs = Inr ts \<and> t \<in> set ts)"
  then obtain n' s where g: "trendOfSorted n' s = Some t"
    using emitted_member by blast
  show "trend t = TStable \<longleftrightarrow> stableCondition t"
  proof (cases "previousValue t")
    case None
    with trendOfSorted_fields(1) [OF g] show ?thesis by (simp add: stableCondition_def)
  next
    case (Some p)
    with trendOfSorted_fields(2) [OF g] show ?thesis
      by (simp add: stableCondition_def classifyTrend_def)
  qed
  show "\<forall>d. \<not> stableCondition t \<and> delta t = Some d \<and> js_gt d (Fin 0) \<longrightarrow> trend t = Rising"
  proof (intro allI impI)
    fix d assume d: "\<not> stableCondition t \<and> delta t = Some d \<and> js_gt d (Fin 0)"
    then obtain p where p: "previousValue t = Some p" by (auto simp: stableCondition_def)
    with trendOfSorted_fields(2) [OF g] d show "trend t = Rising"
      by (simp add: stableCondition_def classifyTrend_def)
  qed
  show "\<forall>d. \<not> stableCondition t \<and> delta t = Some d \<and> js_le d (Fin 0) \<longrightarrow> trend t = Falling"
  proof (intro allI impI)
    fix d assume d: "\<not> stableCondition t \<and> delta t = Some d \<and> js_le d (Fin 0)"
    then obtain p where p: "previousValue t = Some p" by (auto simp: stableCondition_def)
    with trendOfSorted_fields(2) [OF g] d js_le_not_gt [of d "Fin 0"] show "trend t = Falling"
      by (auto simp add: stableCondition_def classifyTrend_def)
  qed
  show "\<forall>p. previousValue t = Some p \<longrightarrow>
             delta t = Some (js_sub (currentValue t) p)
             \<and> deltaPercent t = Some (js_mul (js_div (js_sub (currentValue t) p) p) (Fin 100))"
    using trendOfSorted_fields(2) [OF g] by simp
next
  assume "\<forall>l \<in> set labs. name l \<notin> set objectPrototypeKeys"
  then obtain g where "groupLoop [] labs = Inr g"
    using groupLoop_returns by blast
  then show "\<exists>trends. processLabTrends labs = Inr trends"
    by (simp add: processLabTrends_def groupLabsByType_def)
next
  assume "processLabTrends labs = Inr ts"
  then show "distinct (map labName ts)" by (rule emitted_names_distinct)
next
  assume r: "processLabTrends labs = Inr ts" and p: "datesParse labs"
  show "\<forall>u \<in> set ts. \<exists>vs. recentValues (labName u) labs = currentValue u # vs
                  \<and> previousValue u = (case vs of [] \<Rightarrow> None | p # _ \<Rightarrow> Some p)"
    using emitted_values [OF r p] by blast
  show "\<forall>m. recentValues m labs \<noteq> [] \<longrightarrow> (\<exists>u \<in> set ts. labName u = m)"
    using every_numeric_name_emitted [OF r p] by blast
next
  assume s: "name a = name b \<and> name a \<notin> set objectPrototypeKeys
        \<and> val a = Num (Fin v1) \<and> val b = Num (Fin v2)
        \<and> effectiveDateTime a = Fin t1 \<and> effectiveDateTime b = Fin t2 \<and> t1 < t2 \<and> v1 \<noteq> 0
        \<and> (pair = [a, b] \<or> pair = [b, a])"
    and d: "\<bar>v2 - v1\<bar> = 0.03 * \<bar>v1\<bar>"
  from s have e: "map_sum id (map trendSummary) (processLabTrends pair)
           = Inr [(Fin v2, Some (Fin v1), Some (Fin (v2 - v1)), Some (Fin ((v2 - v1) / v1 * 100)),
                   classifyTrend (Fin (v2 - v1)) (Fin ((v2 - v1) / v1 * 100)))]"
    using two_point_series [of a b v1 v2 t1 t2 pair] by blast
  have "\<bar>(v2 - v1) / v1 * 100\<bar> = (0.03 * \<bar>v1\<bar>) / \<bar>v1\<bar> * 100"
    unfolding abs_mult abs_divide d by simp
  also have "\<dots> = 3" using s by simp
  finally have "\<bar>(v2 - v1) / v1 * 100\<bar> = 3" .
  then have "classifyTrend (Fin (v2 - v1)) (Fin ((v2 - v1) / v1 * 100)) = TStable"
    by (simp add: classifyTrend_def)
  with e show "map_sum id (map trend) (processLabTrends pair) = Inr [TStable]"
    using trend_of_summary by metis
next
  assume s: "name a = name b \<and> name a \<notin> set objectPrototypeKeys
        \<and> val a = Num (Fin v1) \<and> val b = Num (Fin v2)
        \<and> effectiveDateTime a = Fin t1 \<and> effectiveDateTime b = Fin t2 \<and> t1 < t2 \<and> v1 \<noteq> 0
        \<and> (pair = [a, b] \<or> pair = [b, a])"
    and d: "v2 - v1 = 0.06 * \<bar>v1\<bar>"
  from s have e: "map_sum id (map trendSummary) (processLabTrends pair)
           = Inr [(Fin v2, Some (Fin v1), Some (Fin (v2 - v1)), Some (Fin ((v2 - v1) / v1 * 100)),
                   classifyTrend (Fin (v2 - v1)) (Fin ((v2 - v1) / v1 * 100)))]"
    using two_point_series [of a b v1 v2 t1 t2 pair] by blast
  have "\<bar>(v2 - v1) / v1 * 100\<bar> = (0.06 * \<bar>v1\<bar>) / \<bar>v1\<bar> * 100"
    unfolding d abs_mult abs_divide by simp
  also have "\<dots> = 6" using s by simp
  finally have "\<bar>(v2 - v1) / v1 * 100\<bar> = 6" .
  moreover have "\<bar>v1\<bar> > 0" using s by simp
  then have "v2 - v1 > 0" unfolding d by simp
  ultimately have "\<bar>(v2 - v1) / v1 * 100\<bar> = 6" "v2 - v1 > 0" by simp_all
  then have "classifyTrend (Fin (v2 - v1)) (Fin ((v2 - v1) / v1 * 100)) = Rising"
    by (simp add: classifyTrend_def js_gt_def)
  with e show "map_sum id (map trend) (processLabTrends pair) = Inr [Rising]"
    using trend_of_summary by metis
qed

lemma series_eval:
  "map_sum id (map trendSummary) (processLabTrends (series 10.0 10.3))
     = Inr [(Fin 10.3, Some (Fin 10.0), Some (Fin 0.3), Some (Fin 3), TStable)]"
  "map_sum id (map trendSummary) (processLabTrends (rev (series 10.0 10.6)))
     = Inr [(Fin 10.6, Some (Fin 10.0), Some (Fin 0.6), Some (Fin 6), Rising)]"
  "map_sum id (map trendSummary) (processLabTrends (series 0 5))
     = Inr [(Fin 5, Some (Fin 0), Some (Fin 5), Some PInf, Rising)]"
  "map_sum id (map trendSummary) (processLabTrends (series 0 0))
     = Inr [(Fin 0, Some (Fin 0), Some (Fin 0), Some NaN, Falling)]"
  by code_simp+

lemma series_trends:
  "processLabTrends (rev (series 10 10.6)) = Inr [expectedTrend 10 10.6 (Fin 0.6) (Fin 6) Rising]"
  "processLabTrends (series 10 9) = Inr [expectedTrend 10 9 (Fin (- 1)) (Fin (- 10)) Falling]"
  "processLabTrends (series 0 5) = Inr [expectedTrend 0 5 (Fin 5) PInf Rising]"
  "processLabTrends (series 0 0) = Inr [expectedTrend 0 0 (Fin 0) NaN Falling]"
  by code_simp+

lemma series_recent:
  "datesParse (rev (series 10 10.6))"
  "recentValues ''Potassium'' (rev (series 10 10.6)) = [Fin 10.6, Fin 10]"
  by code_simp+

lemma expectedTrend_unstable:
  "\<not> stableCondition (expectedTrend 10 10.6 (Fin 0.6) (Fin 6) Rising)"
  "\<not> stableCondition (expectedTrend 10 9 (Fin (- 1)) (Fin (- 10)) Falling)"
  "\<not> stableCondition (expectedTrend 0 5 (Fin 5) PInf Rising)"
  by (simp_all add: stableCondition_def expectedTrend_def)

text \<open>
  The series 10.0, 10.6, given newest first, rises by 6 percent, its current value is
  10.6 and its previous value 10.0; the series 10.0, 9.0 falls by 10 percent; 10.0, 10.3
  is stable; with the previous value 0 the percent change is infinite and the trend
  rising.
\<close>

theorem trend_classification_witness:
  "processLabTrends (rev (series 10 10.6)) = Inr [expectedTrend 10 10.6 (Fin 0.6) (Fin 6) Rising]
   \<and> \<not> stableCondition (expectedTrend 10 10.6 (Fin 0.6) (Fin 6) Rising)
   \<and> js_gt (Fin 0.6) (Fin 0)
   \<and> trend (expectedTrend 10 10.6 (Fin 0.6) (Fin 6) Rising) = Rising
   \<and> processLabTrends (series 10 9) = Inr [expectedTrend 10 9 (Fin (- 1)) (Fin (- 10)) Falling]
   \<and> \<not> stableCondition (expectedTrend 10 9 (Fin (- 1)) (Fin (- 10)) Falling)
   \<and> js_le (Fin (- 1)) (Fin 0)
   \<and> trend (expectedTrend 10 9 (Fin (- 1)) (Fin (- 10)) Falling) = Falling
   \<and> processLabTrends (series 0 5) = Inr [expectedTrend 0 5 (Fin 5) PInf Rising]
   \<and> trend (expectedTrend 0 5 (Fin 5) PInf Rising) \<noteq> TStable
   \<and> datesParse (rev (series 10 10.6))
   \<and> recentValues ''Potassium'' (rev (series 10 10.6)) = [Fin 10.6, Fin 10]
   \<and> currentValue (expectedTrend 10 10.6 (Fin 0.6) (Fin 6) Rising) = Fin 10.6
   \<and> previousValue (expectedTrend 10 10.6 (Fin 0.6) (Fin 6) Rising) = Some (Fin 10)
   \<and> (\<exists>trends. processLabTrends (rev (series 10 10.6)) = Inr trends)
   \<and> map_sum id (map trend) (processLabTrends (series 10 10.3)) = Inr [TStable]
   \<and> map_sum id (map trend) (processLabTrends (rev (series 10 10.6))) = Inr [Rising]"
proof -
  let ?up = "expectedTrend 10 10.6 (Fin 0.6) (Fin 6) Rising"
  let ?down = "expectedTrend 10 9 (Fin (- 1)) (Fin (- 10)) Falling"
  let ?zero = "expectedTrend 0 5 (Fin 5) PInf Rising"
  let ?labs = "rev (series 10 10.6)"
  have up: "processLabTrends ?labs = Inr [?up] \<and> ?up \<in> set [?up]"
    and down: "processLabTrends (series 10 9) = Inr [?down] \<and> ?down \<in> set [?down]"
    and zero: "processLabTrends (series 0 5) = Inr [?zero] \<and> ?zero \<in> set [?zero]"
    using series_trends by simp_all
  have d: "delta ?up = Some (Fin 0.6)" "js_gt (Fin 0.6) (Fin 0)"
    "delta ?down = Some (Fin (- 1))" "js_le (Fin (- 1)) (Fin 0)"
    by (simp_all add: expectedTrend_def js_gt_def js_le_def)
  note fields = trend_classification [THEN conjunct1]
  note returns = trend_classification [THEN conjunct2, THEN conjunct1]
  note recent = trend_classification [THEN conjunct2, THEN conjunct2, THEN conjunct1]
  note two = trend_classification [THEN conjunct2, THEN conjunct2, THEN conjunct2]
  from fields [of _ _ ?up ?labs "[?up]"] up expectedTrend_unstable(1) d
  have 1: "trend ?up = Rising" by blast
  from fields [of _ _ ?down "series 10 9" "[?down]"] down
    expectedTrend_unstable(2) d
  have 2: "trend ?down = Falling" by blast
  from fields [of _ _ ?zero "series 0 5" "[?zero]"] zero
    expectedTrend_unstable(3)
  have 3: "trend ?zero \<noteq> TStable" by blast
  have n: "\<forall>l \<in> set ?labs. name l \<notin> set objectPrototypeKeys"
    by (simp add: series_def lab_def objectPrototypeKeys_def)
  from returns [of ?labs] n
  have 4: "\<exists>trends. processLabTrends ?labs = Inr trends" by (rule mp)
  from recent [of ?labs "[?up]"] up series_recent(1)
  have "\<forall>u \<in> set [?up]. \<exists>vs. recentValues (labName u) ?labs = currentValue u # vs
                  \<and> previousValue u = (case vs of [] \<Rightarrow> None | p # _ \<Rightarrow> Some p)"
    by (elim impE conjE) assumption+
  then obtain vs where "recentValues (labName ?up) ?labs = currentValue ?up # vs"
    and "previousValue ?up = (case vs of [] \<Rightarrow> None | p # _ \<Rightarrow> Some p)"
    by auto
  moreover have "labName ?up = ''Potassium''" by (simp add: expectedTrend_def)
  ultimately have 5: "currentValue ?up = Fin 10.6" "previousValue ?up = Some (Fin 10)"
    using series_recent(2) by auto
  let ?a = "lab ''2823-3'' ''Potassium'' (Num (Fin 10)) Normal (Fin 1000)"
  let ?b = "lab ''2823-3'' ''Potassium'' (Num (Fin 10.3)) Normal (Fin 2000)"
  let ?c = "lab ''2823-3'' ''Potassium'' (Num (Fin 10.6)) Normal (Fin 2000)"
  have h: "name ?a = name ?b \<and> name ?a \<notin> set objectPrototypeKeys
        \<and> val ?a = Num (Fin 10) \<and> val ?b = Num (Fin 10.3)
        \<and> effectiveDateTime ?a = Fin 1000 \<and> effectiveDateTime ?b = Fin 2000
        \<and> (1000::real) < 2000 \<and> (10::real) \<noteq> 0
        \<and> ([?a, ?b] = [?a, ?b] \<or> [?a, ?b] = [?b, ?a])"
    by (simp add: lab_def objectPrototypeKeys_def)
  have p: "\<bar>10.3 - 10\<bar> = 0.03 * \<bar>10 :: real\<bar>" by simp
  from two [of ?a ?b 10 "10.3" 1000 2000 "[?a, ?b]"] h p
  have 6: "map_sum id (map trend) (processLabTrends [?a, ?b]) = Inr [TStable]" by blast
  have h': "name ?a = name ?c \<and> name ?a \<notin> set objectPrototypeKeys
        \<and> val ?a = Num (Fin 10) \<and> val ?c = Num (Fin 10.6)
        \<and> effectiveDateTime ?a = Fin 1000 \<and> effectiveDateTime ?c = Fin 2000
        \<and> (1000::real) < 2000 \<and> (10::real) \<noteq> 0
        \<and> ([?c, ?a] = [?a, ?c] \<or> [?c, ?a] = [?c, ?a])"
    by (simp add: lab_def objectPrototypeKeys_def)
  have p': "10.6 - 10 = 0.06 * \<bar>10 :: real\<bar>" by simp
  from two [of ?a ?c 10 "10.6" 1000 2000 "[?c, ?a]"] h' p'
  have 7: "map_sum id (map trend) (processLabTrends [?c, ?a]) = Inr [Rising]" by blast
  have "series 10 10.3 = [?a, ?b]" "rev (series 10 10.6) = [?c, ?a]"
    by (simp_all add: series_def)
  with 1 2 3 4 5 6 7 show ?thesis
    using series_trends expectedTrend_unstable d series_recent by simp
qed

subsection \<open>Status classifier\<close>

lemma js_ge_not_lt: "js_ge x y \<Longrightarrow> \<not> js_lt x y"
  by (simp add: js_ge_def js_le_def)

lemma transformObservation_status:
  "status (transformObservation obs)
     = tableRule (labNameOf obs) (map_option q_value (valueQuantity obs))
         (rangeRule (map_option q_value (valueQuantity obs)) (first_of (obs_referenceRange obs)))"
  by (simp add: transformObservation_def Let_def)

lemma classifier_examples:
  "js_lt (Fin (- 1.5)) (js_mul (Fin (- 2)) (Fin 0.5))"
  "rangeRule (Some (Fin (- 1.5))) (Some (fhirRange (Some (- 2)) (Some 2))) = Normal"
  "status (transformObservation baseExcess) = Normal"
  "js_gt (Fin (- 12)) (js_mul (Fin (- 10)) (Fin 1.5))"
  "rangeRule (Some (Fin (- 12))) (Some (fhirRange None (Some (- 10)))) = Normal"
  "status (transformObservation belowNegativeHigh) = Normal"
  by code_simp+

text \<open>
  C3, as the claim states it, fails for a negative bound. A base excess of -1.5 lies
  below half of the lower bound -2 and is classified normal, and -12 lies above one
  and a half times the upper bound -10 and is classified normal: the value must first
  be beyond the bound itself.
\<close>

theorem range_rule_negative_bound_counterexample:
  "js_lt (Fin (- 1.5)) (js_mul (Fin (- 2)) (Fin 0.5))
   \<and> rangeRule (Some (Fin (- 1.5))) (Some (fhirRange (Some (- 2)) (Some 2))) = Normal
   \<and> status (transformObservation baseExcess) = Normal
   \<and> js_gt (Fin (- 12)) (js_mul (Fin (- 10)) (Fin 1.5))
   \<and> rangeRule (Some (Fin (- 12))) (Some (fhirRange None (Some (- 10)))) = Normal
   \<and> status (transformObservation belowNegativeHigh) = Normal"
  by (intro conjI classifier_examples)

text \<open>
  C3, amended. With an upper bound \<open>high\<close>: a value above \<open>high\<close> is critical if it is
  also above \<open>high \<times> 1.5\<close> and abnormal otherwise, and for a value that is at most
  \<open>high\<close> the upper bound plays no part (the result is that of the range without it,
  normal if there is no lower bound). With a lower bound \<open>low\<close>, when the upper bound
  does not apply: a value below \<open>low\<close> is critical if it is also below \<open>low \<times> 0.5\<close>
  and abnormal otherwise, and a value that is at least \<open>low\<close> is normal. For bounds
  that are not negative, with \<open>low \<le> high\<close>, a value above \<open>high \<times> 1.5\<close> or below
  \<open>low \<times> 0.5\<close> is critical, as the claim has it.
\<close>

theorem range_rule_spec:
  "(range_high r = Some h \<longrightarrow>
      (js_gt x (q_value h) \<and> js_gt x (js_mul (q_value h) (Fin 1.5))
         \<longrightarrow> rangeRule (Some x) (Some r) = Critical)
      \<and> (js_gt x (q_value h) \<and> js_le x (js_mul (q_value h) (Fin 1.5))
         \<longrightarrow> rangeRule (Some x) (Some r) = Abnormal)
      \<and> (js_le x (q_value h)
         \<longrightarrow> rangeRule (Some x) (Some r) = rangeRule (Some x) (Some (r\<lparr>range_high := None\<rparr>)))
      \<and> (js_le x (q_value h) \<and> range_low r = None \<longrightarrow> rangeRule (Some x) (Some r) = Normal))
   \<and> (range_low r = Some l
        \<and> (case range_high r of Some h \<Rightarrow> \<not> js_gt x (q_value h) | None \<Rightarrow> True) \<longrightarrow>
      (js_lt x (q_value l) \<and> js_lt x (js_mul (q_value l) (Fin 0.5))
         \<longrightarrow> rangeRule (Some x) (Some r) = Critical)
      \<and> (js_lt x (q_value l) \<and> js_ge x (js_mul (q_value l) (Fin 0.5))
         \<longrightarrow> rangeRule (Some x) (Some r) = Abnormal)
      \<and> (js_ge x (q_value l) \<longrightarrow> rangeRule (Some x) (Some r) = Normal))
   \<and> (range_high r = Some h \<and> q_value h = Fin hi \<and> 0 \<le> hi \<and> hi * 1.5 < v
        \<longrightarrow> rangeRule (Some (Fin v)) (Some r) = Critical)
   \<and> (range_low r = Some l \<and> q_value l = Fin lo \<and> 0 \<le> lo \<and> v < lo * 0.5
        \<and> (case range_high r of Some h \<Rightarrow> js_le (Fin lo) (q_value h) | None \<Rightarrow> True)
        \<longrightarrow> rangeRule (Some (Fin v)) (Some r) = Critical)"
proof (intro conjI impI)
  assume "range_high r = Some h \<and> q_value h = Fin hi \<and> 0 \<le> hi \<and> hi * 1.5 < v"
  moreover from this have "hi < v" by (simp add: field_simps)
  ultimately show "rangeRule (Some (Fin v)) (Some r) = Critical"
    by (simp add: rangeRule_def js_gt_def)
next
  assume a: "range_low r = Some l \<and> q_value l = Fin lo \<and> 0 \<le> lo \<and> v < lo * 0.5
        \<and> (case range_high r of Some h \<Rightarrow> js_le (Fin lo) (q_value h) | None \<Rightarrow> True)"
  then have lt: "v < lo" by (simp add: field_simps)
  have "\<not> js_gt (Fin v) (q_value h')" if "range_high r = Some h'" for h'
    using that a lt by (cases "q_value h'") (auto simp add: js_gt_def js_le_def)
  with a lt show "rangeRule (Some (Fin v)) (Some r) = Critical"
    by (auto simp add: rangeRule_def split: option.splits)
qed (auto simp add: rangeRule_def js_le_not_gt js_ge_not_lt split: option.splits)

lemma potassiumHigh_eval:
  "range_high (fhirRange (Some 3.5) (Some 5.0)) = Some (quantity 5.0)"
  "js_gt (Fin 7) (q_value (quantity 5.0))"
  "js_le (Fin 7) (js_mul (q_value (quantity 5.0)) (Fin 1.5))"
  "q_value (quantity 5.0) = Fin 5"
  "range_low (fhirRange (Some 3.5) (Some 5.0)) = Some (quantity 3.5)"
  "\<not> js_gt (Fin 1) (q_value (quantity 5.0))"
  "js_lt (Fin 1) (q_value (quantity 3.5))"
  "js_lt (Fin 1) (js_mul (q_value (quantity 3.5)) (Fin 0.5))"
  by code_simp+

text \<open>
  Against the range from 3.5 to 5.0 the value 7 is abnormal (it is at most 7.5), the
  value 8 is critical, and the value 1 is critical (it is below 1.75).
\<close>

theorem range_rule_spec_witness:
  "range_high (fhirRange (Some 3.5) (Some 5.0)) = Some (quantity 5.0)
   \<and> js_gt (Fin 7) (q_value (quantity 5.0))
   \<and> js_le (Fin 7) (js_mul (q_value (quantity 5.0)) (Fin 1.5))
   \<and> rangeRule (Some (Fin 7)) (Some (fhirRange (Some 3.5) (Some 5.0))) = Abnormal
   \<and> q_value (quantity 5.0) = Fin 5 \<and> (0::real) \<le> 5 \<and> (5::real) * 1.5 < 8
   \<and> rangeRule (Some (Fin 8)) (Some (fhirRange (Some 3.5) (Some 5.0))) = Critical
   \<and> range_low (fhirRange (Some 3.5) (Some 5.0)) = Some (quantity 3.5)
   \<and> \<not> js_gt (Fin 1) (q_value (quantity 5.0))
   \<and> js_lt (Fin 1) (q_value (quantity 3.5))
   \<and> js_lt (Fin 1) (js_mul (q_value (quantity 3.5)) (Fin 0.5))
   \<and> rangeRule (Some (Fin 1)) (Some (fhirRange (Some 3.5) (Some 5.0))) = Critical"
proof -
  let ?r = "fhirRange (Some 3.5) (Some 5.0)"
  have n: "(0::real) \<le> 5" "(5::real) * 1.5 < 8" by simp_all
  from range_rule_spec [of ?r "quantity 5.0" "Fin 7"] potassiumHigh_eval
  have "rangeRule (Some (Fin 7)) (Some ?r) = Abnormal"
    by blast
  moreover
  from range_rule_spec [of ?r "quantity 5.0" _ _ 5 8] potassiumHigh_eval n
  have "rangeRule (Some (Fin 8)) (Some ?r) = Critical"
    by blast
  moreover
  have "case range_high ?r of Some h \<Rightarrow> \<not> js_gt (Fin 1) (q_value h) | None \<Rightarrow> True"
    using potassiumHigh_eval by simp
  with range_rule_spec [of ?r _ "Fin 1" "quantity 3.5"] potassiumHigh_eval
  have "rangeRule (Some (Fin 1)) (Some ?r) = Critical"
    by blast
  ultimately show ?thesis using potassiumHigh_eval n by simp
qed

lemma criticalRanges_truthy:
  assumes "(k, rng) \<in> set criticalRanges"
  shows "(case crit_high rng of Some h \<Rightarrow> truthy h | None \<Rightarrow> True)
         \<and> (case crit_low rng of Some l \<Rightarrow> truthy l | None \<Rightarrow> True)"
  using assms by (auto simp add: criticalRanges_def)

lemma firstKey_in_table: "firstKey n = Some (k, rng) \<Longrightarrow> (k, rng) \<in> set criticalRanges"
  by (auto simp add: firstKey_def find_Some_iff in_set_conv_nth)

lemma tableRule_firstKey:
  "tableRule n v s =
     (case (firstKey n, v) of
        (Some (k, rng), Some x) \<Rightarrow> if outsideBounds x rng then Critical else s
      | _ \<Rightarrow> s)"
proof (cases "firstKey n")
  case None
  then show ?thesis
    by (simp add: tableRule_def firstKey_def nameHasKey_def)
next
  case (Some e)
  obtain k rng where e: "e = (k, rng)" by (cases e)
  with Some have "(k, rng) \<in> set criticalRanges" by (simp add: firstKey_in_table)
  from criticalRanges_truthy [OF this] Some e show ?thesis
    by (cases v)
       (auto simp add: tableRule_def firstKey_def nameHasKey_def outsideBounds_def
          split: option.splits)
qed

lemma find_unique_key:
  assumes "(k, rng) \<in> set rs" "P k" "\<forall>(k', r') \<in> set rs. P k' \<longrightarrow> (k', r') = (k, rng)"
  shows "js_find (\<lambda>(k, _). P k) rs = Some (k, rng)"
  using assms by (induction rs) auto

lemma ratio_eval:
  "(''Sodium'', \<lparr> crit_low = Some (Fin 120), crit_high = Some (Fin 160) \<rparr>) \<in> set criticalRanges"
  "nameHasKey (labNameOf ratioObservation) ''Sodium''"
  "valueQuantity ratioObservation = Some (quantity 3)"
  "outsideBounds (q_value (quantity 3)) \<lparr> crit_low = Some (Fin 120), crit_high = Some (Fin 160) \<rparr>"
  "status (transformObservation ratioObservation) = Normal"
  by code_simp+

text \<open>
  C4, as the claim states it, fails for a name with two keys. The name
  \<open>Sodium/Potassium Ratio\<close> contains the key \<open>Sodium\<close> and the value 3 lies below the
  lower bound 120 of that key, yet the status is normal: the classifier consults the
  entry of \<open>Potassium\<close>, which comes first in the table, and 3 lies inside its bounds.
\<close>

theorem table_rule_second_key_counterexample:
  "(''Sodium'', \<lparr> crit_low = Some (Fin 120), crit_high = Some (Fin 160) \<rparr>) \<in> set criticalRanges
   \<and> nameHasKey (labNameOf ratioObservation) ''Sodium''
   \<and> valueQuantity ratioObservation = Some (quantity 3)
   \<and> outsideBounds (q_value (quantity 3)) \<lparr> crit_low = Some (Fin 120), crit_high = Some (Fin 160) \<rparr>
   \<and> status (transformObservation ratioObservation) = Normal"
  by (intro conjI ratio_eval)

text \<open>
  C4, amended. For an observation with a numeric value, let the entry of the table be
  the first one, in the order Potassium, Sodium, Glucose, Hemoglobin, Platelet,
  Creatinine, whose key the name contains without regard to case. If the value lies
  outside a bound that this entry defines, the final status is critical. When the name
  contains the key of one entry only, that entry is the one consulted. The table check
  never changes a status that the range rule has set to critical.
\<close>

theorem table_rule_spec:
  "(valueQuantity obs = Some q \<and> firstKey (labNameOf obs) = Some (k, rng)
      \<and> outsideBounds (q_value q) rng
      \<longrightarrow> status (transformObservation obs) = Critical)
   \<and> ((k, rng) \<in> set criticalRanges \<and> nameHasKey n k
        \<and> (\<forall>(k', r') \<in> set criticalRanges. nameHasKey n k' \<longrightarrow> (k', r') = (k, rng))
      \<longrightarrow> firstKey n = Some (k, rng))
   \<and> tableRule n v Critical = Critical
   \<and> (rangeRule (map_option q_value (valueQuantity obs)) (first_of (obs_referenceRange obs))
        = Critical
      \<longrightarrow> status (transformObservation obs) = Critical)"
proof (intro conjI impI)
  assume "valueQuantity obs = Some q \<and> firstKey (labNameOf obs) = Some (k, rng)
      \<and> outsideBounds (q_value q) rng"
  then show "status (transformObservation obs) = Critical"
    by (simp add: transformObservation_status tableRule_firstKey)
next
  assume "(k, rng) \<in> set criticalRanges \<and> nameHasKey n k
        \<and> (\<forall>(k', r') \<in> set criticalRanges. nameHasKey n k' \<longrightarrow> (k', r') = (k, rng))"
  then show "firstKey n = Some (k, rng)"
    unfolding firstKey_def by (intro find_unique_key) auto
next
  show c: "tableRule n v Critical = Critical" for n v
    by (simp add: tableRule_firstKey split: option.splits)
  assume "rangeRule (map_option q_value (valueQuantity obs)) (first_of (obs_referenceRange obs))
        = Critical"
  then show "status (transformObservation obs) = Critical"
    by (simp add: transformObservation_status c)
qed

lemma potassium_eval:
  "valueQuantity potassiumHigh = Some (quantity 7)"
  "firstKey (labNameOf potassiumHigh)
     = Some (''Potassium'', \<lparr> crit_low = Some (Fin 2.5), crit_high = Some (Fin 6.5) \<rparr>)"
  "outsideBounds (q_value (quantity 7)) \<lparr> crit_low = Some (Fin 2.5), crit_high = Some (Fin 6.5) \<rparr>"
  "rangeRule (map_option q_value (valueQuantity potassiumHigh))
       (first_of (obs_referenceRange potassiumHigh)) = Abnormal"
  by code_simp+

text \<open>
  A potassium of 7 is only abnormal by its reference range from 3.5 to 5.0; it exceeds
  the critical bound 6.5 of the table and ends up critical.
\<close>

theorem table_rule_spec_witness:
  "valueQuantity potassiumHigh = Some (quantity 7)
   \<and> firstKey (labNameOf potassiumHigh)
       = Some (''Potassium'', \<lparr> crit_low = Some (Fin 2.5), crit_high = Some (Fin 6.5) \<rparr>)
   \<and> outsideBounds (q_value (quantity 7)) \<lparr> crit_low = Some (Fin 2.5), crit_high = Some (Fin 6.5) \<rparr>
   \<and> rangeRule (map_option q_value (valueQuantity potassiumHigh))
        (first_of (obs_referenceRange potassiumHigh)) = Abnormal
   \<and> status (transformObservation potassiumHigh) = Critical"
proof -
  from table_rule_spec [of potassiumHigh "quantity 7" "''Potassium''"
      "\<lparr> crit_low = Some (Fin 2.5), crit_high = Some (Fin 6.5) \<rparr>"] potassium_eval
  have "status (transformObservation potassiumHigh) = Critical" by blast
  then show ?thesis using potassium_eval by simp
qed

subsection \<open>The wall clock\<close>









end
